theory Spec2Isabelle
  imports Main
begin

section \<open>Data model\<close>

text \<open>
  The tables the booking routes read and write.  The \<open>DATE\<close> column holds a day number.
  A time of day is kept as minutes since midnight (the order of the SQL \<open>TIME\<close> column),
  and a request carries its two times as the validated pair hours, minutes of the
  \<open>HH:MM\<close> text.  Nullable text columns are options.  Identifiers are primary keys; the
  roster query returns the users in table order.
\<close>

record salle =
  s_id :: nat
  s_nom :: string
  s_statut :: string

record utilisateur =
  u_id :: nat
  u_nom :: "string option"
  u_telephone :: "string option"

record reservation =
  r_id :: nat
  utilisateur_id :: nat
  salle_id :: nat
  date :: int
  heure_debut :: nat
  heure_fin :: nat
  motif :: "string option"
  statut :: string
  created_at :: nat
  updated_at :: nat

record notification =
  n_utilisateur_id :: nat
  n_reservation_id :: nat
  n_type :: string
  lu :: bool

text \<open>The statements sent through \<open>pool.query\<close>, and the effects a request leaves behind.\<close>

datatype stmt =
    Begin | Commit | Rollback
  | SelectSalle | SelectConflicts | InsertReservation
  | SelectReservation | UpdateStatut | SelectRoster
  | InsertNotification nat

text \<open>
  \<open>Dispatch\<close> is a call of \<open>client.messages.create\<close>; \<open>SmsOutcome\<close> is the line
  \<open>sendSMS\<close> writes to the console when it returns, with the \<open>success\<close> it returns.
\<close>

datatype event = Query stmt | Dispatch string | SmsOutcome "string option" bool

record world =
  salles :: "salle list"
  utilisateurs :: "utilisateur list"
  reservations :: "reservation list"
  notifications :: "notification list"
  journal :: "event list"

text \<open>
  What a request cannot control: the instant \<open>new Date()\<close> returns, in milliseconds
  since the epoch; the offset of the server's local time from UTC, in milliseconds (a
  fixed offset, so without daylight saving changes); the clock behind
  \<open>CURRENT_TIMESTAMP\<close>; which statements the storage rejects; what the Twilio client
  answers to the call issued as effect number \<open>k\<close> of the journal (\<open>Some sid\<close> when the
  promise resolves, \<open>None\<close> when it rejects); and the order in which the pending calls
  of a fan-out settle (the call to the roster's user number \<open>i\<close> settles before those of
  a higher rank).
\<close>

record env =
  clock :: int
  tz :: int
  now :: nat
  fault :: "stmt \<Rightarrow> bool"
  twilio :: "nat \<Rightarrow> string option"
  settle_rank :: "nat \<Rightarrow> nat"

definition day_ms :: int where
  "day_ms = 86400000"

text \<open>
  The local calendar day of an instant.  It is the day the driver writes when a
  \<open>Date\<close> value is bound to a \<open>DATE\<close> parameter, and the day \<open>toLocaleDateString\<close>
  prints.
\<close>

definition local_day :: "env \<Rightarrow> int \<Rightarrow> int" where
  "local_day e t = (t + tz e) div day_ms"

text \<open>
  \<open>const today = new Date(); today.setHours(0, 0, 0, 0)\<close>: the instant of local midnight
  of the current day.
\<close>

definition today :: "env \<Rightarrow> int" where
  "today e = local_day e (clock e) * day_ms - tz e"

definition record_query :: "stmt \<Rightarrow> world \<Rightarrow> world" where
  "record_query q w = w\<lparr>journal := journal w @ [Query q]\<rparr>"

section \<open>The SMS service\<close>

datatype sms_message =
    NouvelleReservation string int nat nat
  | ReservationConfirmee string string int nat nat
  | ReservationAnnulee string string int nat nat
  | ReservationModifiee string string int nat nat
  | Texte string

datatype js_error = TypeError | NumeroInvalide | TwilioRejected | QueryFailed | AucunUtilisateur

record sms_result =
  success :: bool
  sid :: "string option"
  sms_error :: "js_error option"
  dest :: "string option"
  message :: sms_message

definition digit :: "char \<Rightarrow> bool" where
  "digit c = (c \<in> set ''0123456789'')"

text \<open>The test \<open>/^\+\d{10,15}$/\<close>: a plus sign, then ten to fifteen decimal digits.\<close>

definition phone_ok :: "string \<Rightarrow> bool" where
  "phone_ok num =
     (case num of
        [] \<Rightarrow> False
      | c # ds \<Rightarrow> c = CHR ''+'' \<and> 10 \<le> length ds \<and> length ds \<le> 15 \<and> list_all digit ds)"

text \<open>
  The \<open>try\<close> block of \<open>sendSMS\<close>.  \<open>to.match\<close> on a null number raises a type error, a
  number of the wrong shape raises the explicit error, and a rejected Twilio promise
  raises at the \<open>await\<close>.
\<close>

definition sendSMS_try :: "env \<Rightarrow> string option \<Rightarrow> sms_message \<Rightarrow> world \<Rightarrow> (js_error + sms_result) \<times> world" where
  "sendSMS_try e to_num msg w =
     (case to_num of
        None \<Rightarrow> (Inl TypeError, w)
      | Some num \<Rightarrow>
          if \<not> phone_ok num then (Inl NumeroInvalide, w)
          else
            let w1 = w\<lparr>journal := journal w @ [Dispatch num]\<rparr> in
            (case twilio e (length (journal w)) of
               None \<Rightarrow> (Inl TwilioRejected, w1)
             | Some s \<Rightarrow>
                 (Inr \<lparr>success = True, sid = Some s, sms_error = None, dest = to_num, message = msg\<rparr>, w1)))"

definition sendSMS :: "env \<Rightarrow> string option \<Rightarrow> sms_message \<Rightarrow> world \<Rightarrow> sms_result \<times> world" where
  "sendSMS e to_num msg w =
     (case sendSMS_try e to_num msg w of
        (Inr r, w1) \<Rightarrow> (r, w1\<lparr>journal := journal w1 @ [SmsOutcome to_num True]\<rparr>)
      | (Inl err, w1) \<Rightarrow>
          (\<lparr>success = False, sid = None, sms_error = Some err, dest = to_num, message = msg\<rparr>,
           w1\<lparr>journal := journal w1 @ [SmsOutcome to_num False]\<rparr>))"

definition sendSingleReservationSMS ::
  "env \<Rightarrow> string option \<Rightarrow> string \<Rightarrow> string \<Rightarrow> int \<Rightarrow> nat \<Rightarrow> nat \<Rightarrow> world \<Rightarrow> sms_result \<times> world" where
  "sendSingleReservationSMS e telephone nomUtilisateur nomSalle d heureDebut heureFin w =
     sendSMS e telephone (ReservationConfirmee nomUtilisateur nomSalle d heureDebut heureFin) w"

definition sendCancellationSMS ::
  "env \<Rightarrow> string option \<Rightarrow> string option \<Rightarrow> string \<Rightarrow> int \<Rightarrow> nat \<Rightarrow> nat \<Rightarrow> world \<Rightarrow> sms_result \<times> world" where
  "sendCancellationSMS e telephone nomUtilisateur nomSalle d heureDebut heureFin w =
     sendSMS e telephone (ReservationAnnulee (case nomUtilisateur of None \<Rightarrow> ''null'' | Some n \<Rightarrow> n) nomSalle d heureDebut heureFin) w"

definition sendPriorityReservationSMS ::
  "env \<Rightarrow> string option \<Rightarrow> string option \<Rightarrow> string \<Rightarrow> int \<Rightarrow> nat \<Rightarrow> nat \<Rightarrow> world \<Rightarrow> sms_result \<times> world" where
  "sendPriorityReservationSMS e telephone nomUtilisateur nomSalle d heureDebut heureFin w =
     sendSMS e telephone (ReservationModifiee (case nomUtilisateur of None \<Rightarrow> ''null'' | Some n \<Rightarrow> n) nomSalle d heureDebut heureFin) w"

text \<open>
  \<open>sendSMS\<close> cut at its \<open>await\<close>.  The first half is what a call runs at once: it
  either raises (\<open>Inl\<close>) or hands the message to Twilio and waits, \<open>Inr\<close> holding the
  answer the promise will settle with.  The second half is what runs when the call goes
  on: the \<open>catch\<close> for an error raised before or at the \<open>await\<close>, the success path
  otherwise.
\<close>

definition sendSMS_until_await ::
  "env \<Rightarrow> string option \<Rightarrow> sms_message \<Rightarrow> world \<Rightarrow> (js_error + string option) \<times> world" where
  "sendSMS_until_await e to_num msg w =
     (case to_num of
        None \<Rightarrow> (Inl TypeError, w)
      | Some num \<Rightarrow>
          if \<not> phone_ok num then (Inl NumeroInvalide, w)
          else (Inr (twilio e (length (journal w))), w\<lparr>journal := journal w @ [Dispatch num]\<rparr>))"

definition sendSMS_after_await ::
  "string option \<Rightarrow> sms_message \<Rightarrow> js_error + string option \<Rightarrow> world \<Rightarrow> sms_result \<times> world" where
  "sendSMS_after_await to_num msg r w =
     (case r of
        Inr (Some s) \<Rightarrow>
          (\<lparr>success = True, sid = Some s, sms_error = None, dest = to_num, message = msg\<rparr>,
           w\<lparr>journal := journal w @ [SmsOutcome to_num True]\<rparr>)
      | Inr None \<Rightarrow>
          (\<lparr>success = False, sid = None, sms_error = Some TwilioRejected, dest = to_num,
            message = msg\<rparr>,
           w\<lparr>journal := journal w @ [SmsOutcome to_num False]\<rparr>)
      | Inl err \<Rightarrow>
          (\<lparr>success = False, sid = None, sms_error = Some err, dest = to_num, message = msg\<rparr>,
           w\<lparr>journal := journal w @ [SmsOutcome to_num False]\<rparr>))"

text \<open>
  The roster fan-out, \<open>users.map(user => sendSMS(...))\<close> joined by \<open>Promise.all\<close>.
  \<open>map\<close> starts the calls one after the other: each runs to its \<open>await\<close>, so every
  message is handed to Twilio before any answer is looked at, and a call that raised
  before its \<open>await\<close> has already returned.  The calls left waiting then go on in the
  order their promises settle, and \<open>Promise.all\<close> gives the results in roster order.
\<close>

fun launch_all ::
  "env \<Rightarrow> utilisateur list \<Rightarrow> sms_message \<Rightarrow> world \<Rightarrow>
     (string option \<times> (js_error + string option)) list \<times> world" where
  "launch_all e [] msg w = ([], w)"
| "launch_all e (u # us) msg w =
     (case sendSMS_until_await e (u_telephone u) msg w of
        (r, w1) \<Rightarrow>
          let w2 = (if isl r then snd (sendSMS_after_await (u_telephone u) msg r w1) else w1)
          in (case launch_all e us msg w2 of (cs, w3) \<Rightarrow> ((u_telephone u, r) # cs, w3)))"

fun settle_all ::
  "sms_message \<Rightarrow> (string option \<times> (js_error + string option)) list \<Rightarrow> world \<Rightarrow> world" where
  "settle_all msg [] w = w"
| "settle_all msg (c # cs) w = settle_all msg cs (snd (sendSMS_after_await (fst c) msg (snd c) w))"

definition send_all :: "env \<Rightarrow> utilisateur list \<Rightarrow> sms_message \<Rightarrow> world \<Rightarrow> sms_result list \<times> world" where
  "send_all e users msg w =
     (case launch_all e users msg w of
        (cs, w1) \<Rightarrow>
          let waiting = filter (\<lambda>ic. \<not> isl (snd (snd ic))) (enumerate 0 cs);
              settling = map snd (sort_key (\<lambda>ic. settle_rank e (fst ic)) waiting)
          in (map (\<lambda>c. fst (sendSMS_after_await (fst c) msg (snd c) w1)) cs,
              settle_all msg settling w1))"

record summary =
  total :: nat
  successes :: nat
  failures :: nat
  failedNumbers :: "(string option \<times> js_error option) list"

record roster_result =
  rs_success :: bool
  rs_error :: "js_error option"
  rs_results :: "sms_result list"
  rs_summary :: "summary option"

definition sendReservationSMS :: "env \<Rightarrow> string \<Rightarrow> int \<Rightarrow> nat \<Rightarrow> nat \<Rightarrow> world \<Rightarrow> roster_result \<times> world" where
  "sendReservationSMS e nomSalle d heureDebut heureFin w =
     (let w1 = record_query SelectRoster w in
      if fault e SelectRoster
      then (\<lparr>rs_success = False, rs_error = Some QueryFailed, rs_results = [], rs_summary = None\<rparr>, w1)
      else
        let users = utilisateurs w1 in
        if users = []
        then (\<lparr>rs_success = False, rs_error = Some AucunUtilisateur, rs_results = [], rs_summary = None\<rparr>, w1)
        else
          case send_all e users (NouvelleReservation nomSalle d heureDebut heureFin) w1 of
            (results, w2) \<Rightarrow>
              let succ = length (filter success results);
                  fails = filter (\<lambda>r. \<not> success r) results
              in (\<lparr>rs_success = 0 < succ, rs_error = None, rs_results = results,
                   rs_summary = Some \<lparr>total = length users, successes = succ, failures = length fails,
                                      failedNumbers = map (\<lambda>f. (dest f, sms_error f)) fails\<rparr>\<rparr>, w2))"

section \<open>Conflict detection\<close>

text \<open>
  The three-clause condition of \<open>checkReservationConflict\<close>; \<open>p3\<close> and \<open>p4\<close> are the
  requested start and end.
\<close>

definition conflict_clause :: "reservation \<Rightarrow> nat \<Rightarrow> nat \<Rightarrow> bool" where
  "conflict_clause r p3 p4 =
     ((heure_debut r < p4 \<and> heure_fin r > p3) \<or>
      (heure_debut r < p4 \<and> heure_fin r > p4) \<or>
      (heure_debut r \<ge> p3 \<and> heure_debut r < p4))"

text \<open>The same condition as the priority route writes it inline, on the joined row \<open>r\<close>.\<close>

definition priority_conflict_clause :: "reservation \<Rightarrow> nat \<Rightarrow> nat \<Rightarrow> bool" where
  "priority_conflict_clause r p3 p4 =
     ((heure_debut r < p4 \<and> heure_fin r > p3) \<or>
      (heure_debut r < p4 \<and> heure_fin r > p4) \<or>
      (heure_debut r \<ge> p3 \<and> heure_debut r < p4))"

text \<open>The overlap predicate of two half-open windows, as the specification words it.\<close>

definition spec_overlap :: "nat \<Rightarrow> nat \<Rightarrow> nat \<Rightarrow> nat \<Rightarrow> bool" where
  "spec_overlap s1 e1 s2 e2 = (s1 < e2 \<and> s2 < e1)"

section \<open>Requests, replies and the joined rows\<close>

record principal =
  p_id :: nat
  p_nom :: string
  p_telephone :: "string option"
  p_role :: string

text \<open>
  The validated body of a booking request.  \<open>q_date\<close> is the value \<open>Joi.date().iso()\<close>
  delivers and \<open>new Date(date)\<close> keeps: an instant, in milliseconds since the epoch.  An
  ISO text that is a date only is read as midnight UTC of that day.
\<close>

record request =
  q_salle_id :: nat
  q_date :: int
  q_heure_debut :: "nat \<times> nat"
  q_heure_fin :: "nat \<times> nat"
  q_motif :: "string option"

text \<open>
  \<open>parseInt(h.split(':')[0]) * 60 + parseInt(h.split(':')[1])\<close> on the validated text;
  the same number orders the value once the storage has read it as a \<open>TIME\<close>.
\<close>

definition minutes_of :: "nat \<times> nat \<Rightarrow> nat" where
  "minutes_of t = fst t * 60 + snd t"

datatype failure =
    PastDate | MinDuration | RoomNotFound | RoomUnavailable | SlotConflict
  | NotFound | Forbidden | InvalidState
  | StorageFault | ServerError

text \<open>The status code each route sends with a failure.\<close>

fun http_status :: "failure \<Rightarrow> nat" where
  "http_status RoomNotFound = 404"
| "http_status SlotConflict = 409"
| "http_status RoomUnavailable = 400"
| "http_status PastDate = 400"
| "http_status MinDuration = 400"
| "http_status NotFound = 404"
| "http_status Forbidden = 403"
| "http_status InvalidState = 400"
| "http_status StorageFault = 500"
| "http_status ServerError = 500"

record created_body =
  cb_reservation :: reservation
  cb_salle_nom :: string
  cb_utilisateur_nom :: string
  cb_smsStatus :: bool
  cb_smsDetails :: "summary option"
  cb_notificationStatus :: bool

record priority_body =
  pb_reservation :: reservation
  pb_salle_nom :: string
  pb_utilisateur_nom :: string
  reservations_annulees :: nat
  pb_smsStatus :: bool
  pb_notificationStatus :: bool

record cancel_body =
  an_smsStatus :: bool
  an_notificationStatus :: bool

datatype reply =
    Created created_body
  | PriorityCreated priority_body
  | Cancelled cancel_body
  | Refused failure
  | NoReply

definition find_utilisateur :: "world \<Rightarrow> nat \<Rightarrow> utilisateur option" where
  "find_utilisateur w k = find (\<lambda>u. u_id u = k) (utilisateurs w)"

definition find_salle :: "world \<Rightarrow> nat \<Rightarrow> salle option" where
  "find_salle w k = find (\<lambda>s. s_id s = k) (salles w)"

text \<open>
  A row of \<open>reservations r JOIN utilisateurs u ON r.utilisateur_id = u.id JOIN salles s ON
  r.salle_id = s.id\<close>: a reservation whose user or room row is missing yields no row.
\<close>

record joined_row =
  row :: reservation
  utilisateur_nom :: "string option"
  utilisateur_telephone :: "string option"
  salle_nom :: string

definition join_row :: "world \<Rightarrow> reservation \<Rightarrow> joined_row option" where
  "join_row w r =
     (case find_utilisateur w (utilisateur_id r) of
        None \<Rightarrow> None
      | Some u \<Rightarrow>
          (case find_salle w (salle_id r) of
             None \<Rightarrow> None
           | Some s \<Rightarrow>
               Some \<lparr>row = r, utilisateur_nom = u_nom u, utilisateur_telephone = u_telephone u,
                     salle_nom = s_nom s\<rparr>))"

definition joined_rows :: "world \<Rightarrow> joined_row list" where
  "joined_rows w = List.map_filter (join_row w) (reservations w)"

text \<open>
  Modelled from the spec: the table defaults, whose schema is not part of the sources.
  A new row is \<open>active\<close>, its serial identifier is one no row carries, and both timestamps
  are the current one.
\<close>

definition fresh_id :: "world \<Rightarrow> nat" where
  "fresh_id w = Suc (fold max (map r_id (reservations w)) 0)"

definition new_reservation :: "env \<Rightarrow> principal \<Rightarrow> request \<Rightarrow> world \<Rightarrow> reservation" where
  "new_reservation e user req w =
     \<lparr>r_id = fresh_id w, utilisateur_id = p_id user, salle_id = q_salle_id req,
      date = local_day e (q_date req),
      heure_debut = minutes_of (q_heure_debut req), heure_fin = minutes_of (q_heure_fin req),
      motif = q_motif req, statut = ''active'', created_at = now e, updated_at = now e\<rparr>"

definition insert_notification :: "nat \<Rightarrow> nat \<Rightarrow> bool \<Rightarrow> world \<Rightarrow> world" where
  "insert_notification uid rid sent w =
     w\<lparr>notifications := notifications w @
         [\<lparr>n_utilisateur_id = uid, n_reservation_id = rid,
           n_type = (if sent then ''sms_envoye'' else ''sms_echec''), lu = False\<rparr>]\<rparr>"

text \<open>
  Modelled from the spec: the storage behind \<open>getPool\<close>, whose module \<open>db/init\<close> is not
  part of the sources.  It is the transactional storage of the specification: the
  statements of a request run on one connection, \<open>BEGIN\<close> and \<open>COMMIT\<close> delimit a
  transaction, a query the storage rejects raises and writes nothing, and a \<open>ROLLBACK\<close>
  that is sent ends the transaction and puts the tables written since \<open>BEGIN\<close> back to
  the snapshot \<open>w0\<close>.  A transaction that is neither committed nor rolled back stays
  open: the tables keep its writes for the statements that follow on the connection.
  The journal of effects is not part of the storage.
\<close>

definition rollback :: "world \<Rightarrow> world \<Rightarrow> world" where
  "rollback w0 w = w\<lparr>reservations := reservations w0, notifications := notifications w0\<rparr>"

text \<open>
  The rows the query of \<open>checkReservationConflict\<close> selects; a null or zero
  \<open>excludeReservationId\<close> is falsy and adds no condition.
\<close>

definition conflicting_rows ::
  "world \<Rightarrow> nat \<Rightarrow> int \<Rightarrow> nat \<Rightarrow> nat \<Rightarrow> nat option \<Rightarrow> reservation list" where
  "conflicting_rows w p1 p2 p3 p4 excludeReservationId =
     filter (\<lambda>r. salle_id r = p1 \<and> date r = p2 \<and> statut r = ''active'' \<and>
                 conflict_clause r p3 p4 \<and>
                 (case excludeReservationId of
                    None \<Rightarrow> True
                  | Some x \<Rightarrow> if x = 0 then True else r_id r \<noteq> x))
            (reservations w)"

definition checkReservationConflict ::
  "env \<Rightarrow> nat \<Rightarrow> int \<Rightarrow> nat \<Rightarrow> nat \<Rightarrow> nat option \<Rightarrow> world \<Rightarrow> (failure + bool) \<times> world" where
  "checkReservationConflict e p1 p2 p3 p4 excludeReservationId w =
     (let w1 = record_query SelectConflicts w in
      if fault e SelectConflicts then (Inl StorageFault, w1)
      else (Inr (0 < length (conflicting_rows w1 p1 p2 p3 p4 excludeReservationId)), w1))"

section \<open>Creating a reservation\<close>

text \<open>
  The inner \<open>try\<close> block of \<open>router.post('/')\<close>, from the date check to \<open>COMMIT\<close>.
  \<open>Inl\<close> is a raised error, which the \<open>catch\<close> of the route answers.
\<close>

definition createReservation_try ::
  "env \<Rightarrow> principal \<Rightarrow> request \<Rightarrow> world \<Rightarrow> (failure + created_body) \<times> world" where
  "createReservation_try e user req w0 =
     (if q_date req < today e then (Inl PastDate, w0)
      else
        let startTimeMinutes = minutes_of (q_heure_debut req);
            endTimeMinutes = minutes_of (q_heure_fin req)
        in
        if endTimeMinutes < startTimeMinutes + 60 then (Inl MinDuration, w0)
        else
          let w1 = record_query SelectSalle w0 in
          if fault e SelectSalle then (Inl StorageFault, w1)
          else
            (case find_salle w1 (q_salle_id req) of
               None \<Rightarrow> (Inl RoomNotFound, w1)
             | Some salleRow \<Rightarrow>
                 if s_statut salleRow \<noteq> ''disponible'' then (Inl RoomUnavailable, w1)
                 else
                   (case checkReservationConflict e (q_salle_id req) (local_day e (q_date req))
                           startTimeMinutes endTimeMinutes None w1 of
                      (Inl err, w2) \<Rightarrow> (Inl err, w2)
                    | (Inr hasConflict, w2) \<Rightarrow>
                        if hasConflict then (Inl SlotConflict, w2)
                        else
                          let w3 = record_query InsertReservation w2 in
                          if fault e InsertReservation then (Inl StorageFault, w3)
                          else
                            let reservation = new_reservation e user req w3;
                                w4 = w3\<lparr>reservations := reservations w3 @ [reservation]\<rparr>
                            in
                            (case sendReservationSMS e (s_nom salleRow) (local_day e (q_date req))
                                    startTimeMinutes endTimeMinutes w4 of
                               (smsResult, w5) \<Rightarrow>
                                 let smsStatus = rs_success smsResult;
                                     w6 = record_query (InsertNotification (r_id reservation)) w5;
                                     notificationStatus = (\<not> fault e (InsertNotification (r_id reservation)));
                                     w7 = (if notificationStatus
                                           then insert_notification (p_id user) (r_id reservation) smsStatus w6
                                           else w6);
                                     w8 = record_query Commit w7
                                 in
                                 if fault e Commit then (Inl StorageFault, w8)
                                 else
                                   (Inr \<lparr>cb_reservation = reservation, cb_salle_nom = s_nom salleRow,
                                         cb_utilisateur_nom = p_nom user, cb_smsStatus = smsStatus,
                                         cb_smsDetails = rs_summary smsResult,
                                         cb_notificationStatus = notificationStatus\<rparr>, w8)))))"

text \<open>
  The route: \<open>BEGIN\<close> sits outside the inner \<open>try\<close>, so its failure goes to the outer
  \<open>catch\<close>; an error of the inner block is answered after \<open>ROLLBACK\<close>, and a failing
  \<open>ROLLBACK\<close> goes to the outer \<open>catch\<close> as well.
\<close>

definition createReservation :: "env \<Rightarrow> principal \<Rightarrow> request \<Rightarrow> world \<Rightarrow> reply \<times> world" where
  "createReservation e user req w =
     (let w0 = record_query Begin w in
      if fault e Begin then (Refused ServerError, w0)
      else
        (case createReservation_try e user req w0 of
           (Inr body, w1) \<Rightarrow> (Created body, w1)
         | (Inl err, w1) \<Rightarrow>
             let w2 = record_query Rollback (rollback w w1) in
             if fault e Rollback then (Refused ServerError, w2) else (Refused err, w2)))"

section \<open>Cancelling a reservation\<close>

text \<open>
  The \<open>try\<close> block of \<open>router.delete('/:id')\<close>.  \<open>Inr\<close> is a reply the block sends
  itself (the three refusals follow their own \<open>ROLLBACK\<close>), \<open>Inl\<close> a raised error.
\<close>

definition refuse :: "env \<Rightarrow> world \<Rightarrow> failure \<Rightarrow> world \<Rightarrow> (failure + reply) \<times> world" where
  "refuse e snapshot f w =
     (let w1 = record_query Rollback (rollback snapshot w) in
      if fault e Rollback then (Inl StorageFault, w1) else (Inr (Refused f), w1))"

definition cancelReservation_try ::
  "env \<Rightarrow> principal \<Rightarrow> nat \<Rightarrow> world \<Rightarrow> (failure + reply) \<times> world" where
  "cancelReservation_try e user reservationId w =
     (let w0 = record_query Begin w in
      if fault e Begin then (Inl StorageFault, w0)
      else
        let w1 = record_query SelectReservation w0 in
        if fault e SelectReservation then (Inl StorageFault, w1)
        else
          (case filter (\<lambda>j. r_id (row j) = reservationId) (joined_rows w1) of
             [] \<Rightarrow> refuse e w NotFound w1
           | j # _ \<Rightarrow>
               if p_role user \<noteq> ''admin'' \<and> utilisateur_id (row j) \<noteq> p_id user
               then refuse e w Forbidden w1
               else if statut (row j) \<noteq> ''active'' then refuse e w InvalidState w1
               else
                 let w2 = record_query UpdateStatut w1 in
                 if fault e UpdateStatut then (Inl StorageFault, w2)
                 else
                   let w3 = w2\<lparr>reservations :=
                                 map (\<lambda>r. if r_id r = reservationId
                                          then r\<lparr>statut := ''annulee'', updated_at := now e\<rparr> else r)
                                     (reservations w2)\<rparr>
                   in
                   (case sendCancellationSMS e (utilisateur_telephone j) (utilisateur_nom j)
                           (salle_nom j) (date (row j)) (heure_debut (row j)) (heure_fin (row j)) w3 of
                      (smsResult, w4) \<Rightarrow>
                        let smsStatus = success smsResult;
                            w5 = record_query (InsertNotification (r_id (row j))) w4;
                            notificationStatus = (\<not> fault e (InsertNotification (r_id (row j))));
                            w6 = (if notificationStatus
                                  then insert_notification (utilisateur_id (row j)) (r_id (row j)) smsStatus w5
                                  else w5);
                            w7 = record_query Commit w6
                        in
                        if fault e Commit then (Inl StorageFault, w7)
                        else (Inr (Cancelled \<lparr>an_smsStatus = smsStatus,
                                               an_notificationStatus = notificationStatus\<rparr>), w7))))"

text \<open>
  The \<open>catch\<close> of the route starts with \<open>await pool.query('ROLLBACK')\<close>, but \<open>pool\<close> is a
  \<open>const\<close> of the \<open>try\<close> block and is not in scope there: evaluating it raises a
  reference error before any statement is sent.  So an error raised in the \<open>try\<close> block
  is followed by no \<open>ROLLBACK\<close> and no reply: the handler's promise rejects, and the
  transaction stays open with the writes it has made.
\<close>

definition cancelReservation :: "env \<Rightarrow> principal \<Rightarrow> nat \<Rightarrow> world \<Rightarrow> reply \<times> world" where
  "cancelReservation e user reservationId w =
     (case cancelReservation_try e user reservationId w of
        (Inr rep, w1) \<Rightarrow> (rep, w1)
      | (Inl err, w1) \<Rightarrow> (NoReply, w1))"

section \<open>The priority reservation\<close>

text \<open>
  The loop over the conflicting rows: one SMS to each former owner, then its notification
  row.  The pair carried along is \<open>smsStatus\<close>, \<open>notificationStatus\<close>.  The outer
  \<open>catch\<close> of the loop body has no branch here, since \<open>sendSMS\<close> returns a result on
  every path.
\<close>

fun notify_conflicts :: "env \<Rightarrow> joined_row list \<Rightarrow> bool \<times> bool \<Rightarrow> world \<Rightarrow> (bool \<times> bool) \<times> world" where
  "notify_conflicts e [] st w = (st, w)"
| "notify_conflicts e (conflict # rest) st w =
     (case sendPriorityReservationSMS e (utilisateur_telephone conflict) (utilisateur_nom conflict)
             (salle_nom conflict) (date (row conflict)) (heure_debut (row conflict))
             (heure_fin (row conflict)) w of
        (smsResult, w1) \<Rightarrow>
          let smsStatus = (if \<not> success smsResult then False else fst st);
              w2 = record_query (InsertNotification (r_id (row conflict))) w1;
              failed = fault e (InsertNotification (r_id (row conflict)));
              notificationStatus = (if failed then False else snd st);
              w3 = (if failed then w2
                    else insert_notification (utilisateur_id (row conflict)) (r_id (row conflict))
                           (success smsResult) w2)
          in notify_conflicts e rest (smsStatus, notificationStatus) w3)"

text \<open>
  \<open>if (conflictResult.rows.length > 0)\<close>: one \<open>UPDATE ... WHERE id = ANY(conflictIds)\<close>,
  then the loop.
\<close>

definition cancel_conflicts ::
  "env \<Rightarrow> joined_row list \<Rightarrow> world \<Rightarrow> (failure + bool \<times> bool) \<times> world" where
  "cancel_conflicts e conflictRows w =
     (if 0 < length conflictRows
      then
        let conflictIds = map (\<lambda>j. r_id (row j)) conflictRows;
            w1 = record_query UpdateStatut w
        in
        if fault e UpdateStatut then (Inl StorageFault, w1)
        else
          let w2 = w1\<lparr>reservations :=
                        map (\<lambda>r. if r_id r \<in> set conflictIds
                                 then r\<lparr>statut := ''annulee'', updated_at := now e\<rparr> else r)
                            (reservations w1)\<rparr>
          in (case notify_conflicts e conflictRows (True, True) w2 of (st, w3) \<Rightarrow> (Inr st, w3))
      else (Inr (True, True), w))"

text \<open>The rows the inline query of the priority route returns.\<close>

definition priority_conflicts :: "world \<Rightarrow> nat \<Rightarrow> int \<Rightarrow> nat \<Rightarrow> nat \<Rightarrow> joined_row list" where
  "priority_conflicts w p1 p2 p3 p4 =
     filter (\<lambda>j. salle_id (row j) = p1 \<and> date (row j) = p2 \<and> statut (row j) = ''active'' \<and>
                 priority_conflict_clause (row j) p3 p4)
            (joined_rows w)"

definition createPriorityReservation_try ::
  "env \<Rightarrow> principal \<Rightarrow> request \<Rightarrow> world \<Rightarrow> (failure + priority_body) \<times> world" where
  "createPriorityReservation_try e user req w0 =
     (if q_date req < today e then (Inl PastDate, w0)
      else
        let startTimeMinutes = minutes_of (q_heure_debut req);
            endTimeMinutes = minutes_of (q_heure_fin req)
        in
        if endTimeMinutes < startTimeMinutes + 60 then (Inl MinDuration, w0)
        else
          let w1 = record_query SelectSalle w0 in
          if fault e SelectSalle then (Inl StorageFault, w1)
          else
            (case find_salle w1 (q_salle_id req) of
               None \<Rightarrow> (Inl RoomNotFound, w1)
             | Some salleRow \<Rightarrow>
                 if s_statut salleRow \<noteq> ''disponible'' then (Inl RoomUnavailable, w1)
                 else
                   let w2 = record_query SelectConflicts w1 in
                   if fault e SelectConflicts then (Inl StorageFault, w2)
                   else
                     let conflictRows = priority_conflicts w2 (q_salle_id req)
                                          (local_day e (q_date req))
                                          startTimeMinutes endTimeMinutes
                     in
                     (case cancel_conflicts e conflictRows w2 of
                        (Inl err, w3) \<Rightarrow> (Inl err, w3)
                      | (Inr st, w3) \<Rightarrow>
                          let w4 = record_query InsertReservation w3 in
                          if fault e InsertReservation then (Inl StorageFault, w4)
                          else
                            let reservation = new_reservation e user req w4;
                                w5 = w4\<lparr>reservations := reservations w4 @ [reservation]\<rparr>
                            in
                            (case sendSingleReservationSMS e (p_telephone user) (p_nom user)
                                    (s_nom salleRow) (local_day e (q_date req))
                                    startTimeMinutes endTimeMinutes w5 of
                               (smsResult, w6) \<Rightarrow>
                                 let smsStatus = (if \<not> success smsResult then False else fst st);
                                     w7 = record_query (InsertNotification (r_id reservation)) w6;
                                     failed = fault e (InsertNotification (r_id reservation));
                                     notificationStatus = (if failed then False else snd st);
                                     w8 = (if failed then w7
                                           else insert_notification (p_id user) (r_id reservation)
                                                  (success smsResult) w7);
                                     w9 = record_query Commit w8
                                 in
                                 if fault e Commit then (Inl StorageFault, w9)
                                 else
                                   (Inr \<lparr>pb_reservation = reservation, pb_salle_nom = s_nom salleRow,
                                         pb_utilisateur_nom = p_nom user,
                                         reservations_annulees = length conflictRows,
                                         pb_smsStatus = smsStatus,
                                         pb_notificationStatus = notificationStatus\<rparr>, w9)))))"

definition createPriorityReservation :: "env \<Rightarrow> principal \<Rightarrow> request \<Rightarrow> world \<Rightarrow> reply \<times> world" where
  "createPriorityReservation e user req w =
     (let w0 = record_query Begin w in
      if fault e Begin then (Refused ServerError, w0)
      else
        (case createPriorityReservation_try e user req w0 of
           (Inr body, w1) \<Rightarrow> (PriorityCreated body, w1)
         | (Inl err, w1) \<Rightarrow>
             let w2 = record_query Rollback (rollback w w1) in
             if fault e Rollback then (Refused ServerError, w2) else (Refused err, w2)))"

section \<open>Notions the properties are stated with\<close>

text \<open>
  The five preconditions of a booking as the specification words them, in its order, with
  the failure the first violated one gives.  The date of a request is the calendar day of
  the instant it carries, the time of day ignored: for a date given as a calendar date,
  the day it names.  The current calendar day is the server's local day.  A conflict is
  an active reservation of the same room and date whose window overlaps the requested
  one, by the overlap predicate.
\<close>

definition spec_request_day :: "request \<Rightarrow> int" where
  "spec_request_day req = q_date req div day_ms"

definition spec_current_day :: "env \<Rightarrow> int" where
  "spec_current_day e = (clock e + tz e) div day_ms"

definition spec_find_conflicts :: "request \<Rightarrow> world \<Rightarrow> reservation list" where
  "spec_find_conflicts req w =
     filter (\<lambda>r. salle_id r = q_salle_id req \<and> date r = spec_request_day req \<and>
                 statut r = ''active'' \<and>
                 spec_overlap (heure_debut r) (heure_fin r)
                   (minutes_of (q_heure_debut req)) (minutes_of (q_heure_fin req)))
            (reservations w)"

definition spec_booking_refusal :: "env \<Rightarrow> request \<Rightarrow> world \<Rightarrow> failure option" where
  "spec_booking_refusal e req w =
     (if spec_request_day req < spec_current_day e then Some PastDate
      else if int (minutes_of (q_heure_fin req)) - int (minutes_of (q_heure_debut req)) < 60
      then Some MinDuration
      else
        (case find (\<lambda>s. s_id s = q_salle_id req) (salles w) of
           None \<Rightarrow> Some RoomNotFound
         | Some s \<Rightarrow>
             if s_statut s \<noteq> ''disponible'' then Some RoomUnavailable
             else if spec_find_conflicts req w \<noteq> [] then Some SlotConflict
             else None))"

text \<open>
  The five checks of the booking route as the route makes them, in its order, with the
  failure the first failed one raises: the request passes them exactly when this is
  \<open>None\<close>.
\<close>

definition create_checks :: "env \<Rightarrow> request \<Rightarrow> world \<Rightarrow> failure option" where
  "create_checks e req w =
     (if q_date req < today e then Some PastDate
      else if int (minutes_of (q_heure_fin req)) - int (minutes_of (q_heure_debut req)) < 60
      then Some MinDuration
      else
        (case find_salle w (q_salle_id req) of
           None \<Rightarrow> Some RoomNotFound
         | Some s \<Rightarrow>
             if s_statut s \<noteq> ''disponible'' then Some RoomUnavailable
             else if conflicting_rows w (q_salle_id req) (local_day e (q_date req))
                       (minutes_of (q_heure_debut req)) (minutes_of (q_heure_fin req)) None \<noteq> []
             then Some SlotConflict
             else None))"

text \<open>The first four of them, which the priority route makes as well.\<close>

definition priority_checks :: "env \<Rightarrow> request \<Rightarrow> world \<Rightarrow> failure option" where
  "priority_checks e req w =
     (if q_date req < today e then Some PastDate
      else if int (minutes_of (q_heure_fin req)) - int (minutes_of (q_heure_debut req)) < 60
      then Some MinDuration
      else
        (case find_salle w (q_salle_id req) of
           None \<Rightarrow> Some RoomNotFound
         | Some s \<Rightarrow> if s_statut s \<noteq> ''disponible'' then Some RoomUnavailable else None))"

text \<open>
  An active reservation of the requested room and date whose window overlaps the requested
  one.  The date is the day under which the request's reservation is stored.
\<close>

definition preempted_by :: "env \<Rightarrow> request \<Rightarrow> reservation \<Rightarrow> bool" where
  "preempted_by e req r =
     (salle_id r = q_salle_id req \<and> date r = local_day e (q_date req) \<and>
      statut r = ''active'' \<and>
      spec_overlap (heure_debut r) (heure_fin r)
        (minutes_of (q_heure_debut req)) (minutes_of (q_heure_fin req)))"

definition cancel_row :: "env \<Rightarrow> reservation \<Rightarrow> reservation" where
  "cancel_row e r = r\<lparr>statut := ''annulee'', updated_at := now e\<rparr>"

text \<open>A reply that reports a failure, or none at all.\<close>

fun failed :: "reply \<Rightarrow> bool" where
  "failed (Refused f) = True"
| "failed NoReply = True"
| "failed (Created b) = False"
| "failed (PriorityCreated b) = False"
| "failed (Cancelled b) = False"

text \<open>The effects a run from \<open>w\<close> to \<open>w'\<close> has added to the journal.\<close>

definition new_events :: "world \<Rightarrow> world \<Rightarrow> event list" where
  "new_events w w' = drop (length (journal w)) (journal w')"

fun sms_outcomes :: "event list \<Rightarrow> bool list" where
  "sms_outcomes [] = []"
| "sms_outcomes (SmsOutcome t b # evs) = b # sms_outcomes evs"
| "sms_outcomes (Query q # evs) = sms_outcomes evs"
| "sms_outcomes (Dispatch n # evs) = sms_outcomes evs"

fun is_dispatch :: "event \<Rightarrow> bool" where
  "is_dispatch (Dispatch n) = True"
| "is_dispatch (Query q) = False"
| "is_dispatch (SmsOutcome t b) = False"

text \<open>No SMS is handed to Twilio before the first \<open>COMMIT\<close> of the list.\<close>

fun no_dispatch_before_commit :: "event list \<Rightarrow> bool" where
  "no_dispatch_before_commit [] = True"
| "no_dispatch_before_commit (ev # evs) =
     (if ev = Query Commit then True
      else if is_dispatch ev then False
      else no_dispatch_before_commit evs)"

text \<open>
  A stretch of effects in which no transaction is opened or closed: no \<open>BEGIN\<close>, no
  \<open>COMMIT\<close> and no \<open>ROLLBACK\<close>.
\<close>

definition no_delimiter :: "event list \<Rightarrow> bool" where
  "no_delimiter evs =
     (Query Begin \<notin> set evs \<and> Query Commit \<notin> set evs \<and> Query Rollback \<notin> set evs)"

text \<open>
  Two rows book the same room and day, both active, with overlapping windows.
\<close>

definition double_booked :: "reservation \<Rightarrow> reservation \<Rightarrow> bool" where
  "double_booked a b =
     (salle_id a = salle_id b \<and> date a = date b \<and>
      statut a = ''active'' \<and> statut b = ''active'' \<and>
      spec_overlap (heure_debut a) (heure_fin a) (heure_debut b) (heure_fin b))"

text \<open>
  What the schema and the write paths keep true of the stored rows: identifiers are a
  key, every window has a positive length, and the user and room a row names exist.
\<close>

definition rows_wellformed :: "world \<Rightarrow> bool" where
  "rows_wellformed w =
     (distinct (map r_id (reservations w)) \<and>
      list_all (\<lambda>r. heure_debut r < heure_fin r \<and>
                     find_utilisateur w (utilisateur_id r) \<noteq> None \<and>
                     find_salle w (salle_id r) \<noteq> None)
               (reservations w))"

definition booking_invariant :: "world \<Rightarrow> bool" where
  "booking_invariant w =
     (rows_wellformed w \<and> sorted_wrt (\<lambda>a b. \<not> double_booked a b) (reservations w))"

text \<open>
  The states that sequences of the three operations reach from an empty reservation table.
  A request comes from an authenticated principal, that is, a row of \<open>utilisateurs\<close>.
\<close>

inductive reachable :: "world \<Rightarrow> bool" where
  initial: "reservations w = [] \<Longrightarrow> reachable w"
| create: "reachable w \<Longrightarrow> find_utilisateur w (p_id user) \<noteq> None \<Longrightarrow>
     reachable (snd (createReservation e user req w))"
| priority: "reachable w \<Longrightarrow> find_utilisateur w (p_id user) \<noteq> None \<Longrightarrow>
     reachable (snd (createPriorityReservation e user req w))"
| cancel: "reachable w \<Longrightarrow> reachable (snd (cancelReservation e user reservationId w))"

subsection \<open>A small installation\<close>

definition steady_env :: env where
  "steady_env = \<lparr>clock = 1771200000, tz = 3600000, now = 1000, fault = (\<lambda>q. False), twilio = (\<lambda>k. Some ''SM01''),
      settle_rank = (\<lambda>i. 0)\<rparr>"

definition silent_env :: env where
  "silent_env = \<lparr>clock = 1771200000, tz = 3600000, now = 1000, fault = (\<lambda>q. False), twilio = (\<lambda>k. None),
      settle_rank = (\<lambda>i. 0)\<rparr>"

definition awa :: principal where
  "awa = \<lparr>p_id = 7, p_nom = ''Awa'', p_telephone = Some ''+237677865607'', p_role = ''user''\<rparr>"

definition bea :: principal where
  "bea = \<lparr>p_id = 8, p_nom = ''Bea'', p_telephone = Some ''+237670123456'', p_role = ''user''\<rparr>"

definition the_admin :: principal where
  "the_admin = \<lparr>p_id = 1, p_nom = ''Admin'', p_telephone = Some ''+237655998106'', p_role = ''admin''\<rparr>"

definition office :: world where
  "office =
     \<lparr>salles = [\<lparr>s_id = 1, s_nom = ''Salle A'', s_statut = ''disponible''\<rparr>],
      utilisateurs =
        [\<lparr>u_id = 1, u_nom = Some ''Admin'', u_telephone = Some ''+237655998106''\<rparr>,
         \<lparr>u_id = 7, u_nom = Some ''Awa'', u_telephone = Some ''+237677865607''\<rparr>,
         \<lparr>u_id = 8, u_nom = Some ''Bea'', u_telephone = Some ''+237670123456''\<rparr>],
      reservations = [], notifications = [], journal = []\<rparr>"

definition nine_to_ten :: request where
  "nine_to_ten = \<lparr>q_salle_id = 1, q_date = 1728000000, q_heure_debut = (9, 0), q_heure_fin = (10, 0),
                   q_motif = None\<rparr>"

definition half_past_nine :: request where
  "half_past_nine = \<lparr>q_salle_id = 1, q_date = 1728000000, q_heure_debut = (9, 30), q_heure_fin = (10, 30),
                      q_motif = None\<rparr>"

definition row_9_10 :: reservation where
  "row_9_10 = \<lparr>r_id = 3, utilisateur_id = 7, salle_id = 1, date = 20, heure_debut = 540,
                heure_fin = 600, motif = None, statut = ''active'', created_at = 1000,
                updated_at = 1000\<rparr>"

definition booked_office :: world where
  "booked_office = office\<lparr>reservations := [row_9_10]\<rparr>"

definition faulty_env :: env where
  "faulty_env = \<lparr>clock = 1771200000, tz = 3600000, now = 1000, fault = (\<lambda>q. q = SelectRoster), twilio = (\<lambda>k. Some ''SM01''),
      settle_rank = (\<lambda>i. 0)\<rparr>"

text \<open>The reservation table after the \<open>UPDATE\<close> of the priority route.\<close>

definition preempt :: "env \<Rightarrow> request \<Rightarrow> world \<Rightarrow> reservation list" where
  "preempt e req w =
     map (\<lambda>r. if r_id r \<in> set (map (\<lambda>j. r_id (row j))
                    (priority_conflicts w (q_salle_id req) (local_day e (q_date req))
                       (minutes_of (q_heure_debut req)) (minutes_of (q_heure_fin req))))
              then cancel_row e r else r)
         (reservations w)"

definition commit_fault_env :: env where
  "commit_fault_env = \<lparr>clock = 1771200000, tz = 3600000, now = 1000, fault = (\<lambda>q. q = Commit), twilio = (\<lambda>k. Some ''SM01''),
      settle_rank = (\<lambda>i. 0)\<rparr>"

text \<open>The replies of three runs on the small installation.\<close>

definition first_booking :: created_body where
  "first_booking =
     \<lparr>cb_reservation =
        \<lparr>r_id = 1, utilisateur_id = 7, salle_id = 1, date = 20, heure_debut = 540,
         heure_fin = 600, motif = None, statut = ''active'', created_at = 1000,
         updated_at = 1000\<rparr>,
      cb_salle_nom = ''Salle A'', cb_utilisateur_nom = ''Awa'', cb_smsStatus = True,
      cb_smsDetails = Some \<lparr>total = 3, successes = 3, failures = 0, failedNumbers = []\<rparr>,
      cb_notificationStatus = True\<rparr>"

definition priority_booking :: priority_body where
  "priority_booking =
     \<lparr>pb_reservation =
        \<lparr>r_id = 4, utilisateur_id = 1, salle_id = 1, date = 20, heure_debut = 570,
         heure_fin = 630, motif = None, statut = ''active'', created_at = 1000,
         updated_at = 1000\<rparr>,
      pb_salle_nom = ''Salle A'', pb_utilisateur_nom = ''Admin'', reservations_annulees = 1,
      pb_smsStatus = True, pb_notificationStatus = True\<rparr>"

definition unheard_priority_booking :: priority_body where
  "unheard_priority_booking = priority_booking\<lparr>pb_smsStatus := False\<rparr>"


definition ten_to_eleven :: request where
  "ten_to_eleven = \<lparr>q_salle_id = 1, q_date = 1728000000, q_heure_debut = (10, 0), q_heure_fin = (11, 0),
                     q_motif = None\<rparr>"

definition after_first :: world where
  "after_first = snd (createReservation steady_env awa nine_to_ten office)"

definition after_second :: world where
  "after_second = snd (createReservation steady_env bea ten_to_eleven after_first)"

text \<open>A server five hours west of UTC, at noon local time of day 20.\<close>

definition west_env :: env where
  "west_env = \<lparr>clock = 1789200000, tz = - 18000000, now = 1000, fault = (\<lambda>q. False),
      twilio = (\<lambda>k. Some ''SM01''), settle_rank = (\<lambda>i. 0)\<rparr>"

text \<open>Whether a call of \<open>sendSMS\<close> that has reached this point will return success.\<close>

definition answered :: "js_error + string option \<Rightarrow> bool" where
  "answered r = (case r of Inr (Some s) \<Rightarrow> True | Inr None \<Rightarrow> False | Inl err \<Rightarrow> False)"

section \<open>Auxiliary facts\<close>

subsection \<open>Which tables each step touches\<close>

lemma record_query_simps [simp]:
  "salles (record_query q w) = salles w"
  "utilisateurs (record_query q w) = utilisateurs w"
  "reservations (record_query q w) = reservations w"
  "notifications (record_query q w) = notifications w"
  "journal (record_query q w) = journal w @ [Query q]"
  by (simp_all add: record_query_def)

lemma insert_notification_simps [simp]:
  "salles (insert_notification u r b w) = salles w"
  "utilisateurs (insert_notification u r b w) = utilisateurs w"
  "reservations (insert_notification u r b w) = reservations w"
  "journal (insert_notification u r b w) = journal w"
  by (simp_all add: insert_notification_def)

lemma rollback_simps [simp]:
  "salles (rollback w0 w) = salles w"
  "utilisateurs (rollback w0 w) = utilisateurs w"
  "reservations (rollback w0 w) = reservations w0"
  "notifications (rollback w0 w) = notifications w0"
  "journal (rollback w0 w) = journal w"
  by (simp_all add: rollback_def)

lemma sendSMS_tables [simp]:
  "salles (snd (sendSMS e t m w)) = salles w"
  "utilisateurs (snd (sendSMS e t m w)) = utilisateurs w"
  "reservations (snd (sendSMS e t m w)) = reservations w"
  "notifications (snd (sendSMS e t m w)) = notifications w"
  by (auto simp: sendSMS_def sendSMS_try_def Let_def split: option.splits)

lemma sendSMS_cut:
  "sendSMS e t m w =
     (case sendSMS_until_await e t m w of (r, w1) \<Rightarrow> sendSMS_after_await t m r w1)"
  by (simp add: sendSMS_def sendSMS_try_def sendSMS_until_await_def sendSMS_after_await_def
      Let_def split: option.splits)

lemma sendSMS_until_await_tables [simp]:
  "salles (snd (sendSMS_until_await e t m w)) = salles w"
  "utilisateurs (snd (sendSMS_until_await e t m w)) = utilisateurs w"
  "reservations (snd (sendSMS_until_await e t m w)) = reservations w"
  "notifications (snd (sendSMS_until_await e t m w)) = notifications w"
  by (simp_all add: sendSMS_until_await_def split: option.splits)

lemma sendSMS_after_await_tables [simp]:
  "salles (snd (sendSMS_after_await t m r w)) = salles w"
  "utilisateurs (snd (sendSMS_after_await t m r w)) = utilisateurs w"
  "reservations (snd (sendSMS_after_await t m r w)) = reservations w"
  "notifications (snd (sendSMS_after_await t m r w)) = notifications w"
  by (simp_all add: sendSMS_after_await_def split: sum.splits option.splits)

lemma launch_all_tables [simp]:
  "salles (snd (launch_all e us m w)) = salles w"
  "utilisateurs (snd (launch_all e us m w)) = utilisateurs w"
  "reservations (snd (launch_all e us m w)) = reservations w"
  "notifications (snd (launch_all e us m w)) = notifications w"
  by (induction us arbitrary: w; simp add: case_prod_beta Let_def)+

lemma settle_all_tables [simp]:
  "salles (settle_all m cs w) = salles w"
  "utilisateurs (settle_all m cs w) = utilisateurs w"
  "reservations (settle_all m cs w) = reservations w"
  "notifications (settle_all m cs w) = notifications w"
  by (induction cs arbitrary: w; simp)+

lemma send_all_tables [simp]:
  "salles (snd (send_all e us m w)) = salles w"
  "utilisateurs (snd (send_all e us m w)) = utilisateurs w"
  "reservations (snd (send_all e us m w)) = reservations w"
  "notifications (snd (send_all e us m w)) = notifications w"
  by (simp_all add: send_all_def case_prod_beta Let_def)

lemma sendReservationSMS_tables [simp]:
  "salles (snd (sendReservationSMS e n d a b w)) = salles w"
  "utilisateurs (snd (sendReservationSMS e n d a b w)) = utilisateurs w"
  "reservations (snd (sendReservationSMS e n d a b w)) = reservations w"
  "notifications (snd (sendReservationSMS e n d a b w)) = notifications w"
  by (simp_all add: sendReservationSMS_def Let_def case_prod_beta)

lemma record_query_finds [simp]:
  "find_salle (record_query q w) k = find_salle w k"
  "find_utilisateur (record_query q w) k = find_utilisateur w k"
  by (simp_all add: find_salle_def find_utilisateur_def)

lemma record_query_join_row [simp]: "join_row (record_query q w) = join_row w"
  by (simp add: join_row_def fun_eq_iff split: option.split)

lemma record_query_reads [simp]:
  "fresh_id (record_query q w) = fresh_id w"
  "new_reservation e u r (record_query q w) = new_reservation e u r w"
  "conflicting_rows (record_query q w) a b c d x = conflicting_rows w a b c d x"
  "joined_rows (record_query q w) = joined_rows w"
  by (simp_all add: fresh_id_def new_reservation_def conflicting_rows_def joined_rows_def)

lemma createReservation_try_cases:
  "createReservation_try e user req w0 = (res, w1) \<Longrightarrow>
     (case res of
        Inr body \<Rightarrow>
          reservations w1 = reservations w0 @ [new_reservation e user req w0] \<and>
          cb_reservation body = new_reservation e user req w0 \<and>
          create_checks e req w0 = None
      | Inl f \<Rightarrow> (f = StorageFault \<or> create_checks e req w0 = Some f))"
  unfolding createReservation_try_def checkReservationConflict_def create_checks_def
  by (auto simp: Let_def case_prod_beta split: if_splits option.splits sum.splits)


lemma create_checks_record_query [simp]:
  "create_checks e req (record_query q w) = create_checks e req w"
  by (simp add: create_checks_def)

lemma createReservation_try_nofault:
  "\<forall>q. \<not> fault e q \<Longrightarrow>
     (case fst (createReservation_try e user req w0) of
        Inl f \<Rightarrow> create_checks e req w0 = Some f
      | Inr body \<Rightarrow> create_checks e req w0 = None)"
  unfolding createReservation_try_def checkReservationConflict_def create_checks_def
  by (auto simp: Let_def case_prod_beta split: if_splits option.splits sum.splits)

lemma createReservation_cases:
  "createReservation e user req w = (rep, w') \<Longrightarrow>
     (case rep of
        Created body \<Rightarrow>
          reservations w' = reservations w @ [new_reservation e user req w] \<and>
          cb_reservation body = new_reservation e user req w \<and>
          create_checks e req w = None
      | Refused f \<Rightarrow>
          reservations w' = reservations w \<and> notifications w' = notifications w \<and>
          (f = ServerError \<or> f = StorageFault \<or> create_checks e req w = Some f)
      | _ \<Rightarrow> False)"
  unfolding createReservation_def
  by (auto simp: Let_def split: if_splits prod.splits sum.splits dest!: createReservation_try_cases)


subsection \<open>Cancelling\<close>

lemma sendCancellationSMS_tables [simp]:
  "salles (snd (sendCancellationSMS e t n s d a b w)) = salles w"
  "utilisateurs (snd (sendCancellationSMS e t n s d a b w)) = utilisateurs w"
  "reservations (snd (sendCancellationSMS e t n s d a b w)) = reservations w"
  "notifications (snd (sendCancellationSMS e t n s d a b w)) = notifications w"
  by (simp_all add: sendCancellationSMS_def)

lemma sendPriorityReservationSMS_tables [simp]:
  "salles (snd (sendPriorityReservationSMS e t n s d a b w)) = salles w"
  "utilisateurs (snd (sendPriorityReservationSMS e t n s d a b w)) = utilisateurs w"
  "reservations (snd (sendPriorityReservationSMS e t n s d a b w)) = reservations w"
  "notifications (snd (sendPriorityReservationSMS e t n s d a b w)) = notifications w"
  by (simp_all add: sendPriorityReservationSMS_def)

lemma sendSingleReservationSMS_tables [simp]:
  "salles (snd (sendSingleReservationSMS e t n s d a b w)) = salles w"
  "utilisateurs (snd (sendSingleReservationSMS e t n s d a b w)) = utilisateurs w"
  "reservations (snd (sendSingleReservationSMS e t n s d a b w)) = reservations w"
  "notifications (snd (sendSingleReservationSMS e t n s d a b w)) = notifications w"
  by (simp_all add: sendSingleReservationSMS_def)

lemma refuse_cases:
  "refuse e snapshot f w = (res, w1) \<Longrightarrow>
     reservations w1 = reservations snapshot \<and> notifications w1 = notifications snapshot \<and>
     salles w1 = salles w \<and> utilisateurs w1 = utilisateurs w \<and>
     (res = Inl StorageFault \<and> fault e Rollback \<or> res = Inr (Refused f) \<and> \<not> fault e Rollback)"
  by (auto simp: refuse_def Let_def split: if_splits)

lemma cancelReservation_try_cases:
  "cancelReservation_try e user rid w = (res, w1) \<Longrightarrow>
     salles w1 = salles w \<and> utilisateurs w1 = utilisateurs w \<and>
     (case res of
        Inr (Cancelled b) \<Rightarrow>
          reservations w1 = map (\<lambda>r. if r_id r = rid then cancel_row e r else r) (reservations w)
      | Inr (Refused f) \<Rightarrow> reservations w1 = reservations w \<and> notifications w1 = notifications w
      | Inr _ \<Rightarrow> False
      | Inl f \<Rightarrow>
          reservations w1 = reservations w \<or>
          reservations w1 = map (\<lambda>r. if r_id r = rid then cancel_row e r else r) (reservations w))"
  unfolding cancelReservation_try_def
  by (auto simp: Let_def case_prod_beta cancel_row_def split: if_splits list.splits dest!: refuse_cases)

lemma cancelReservation_cases:
  "cancelReservation e user rid w = (rep, w') \<Longrightarrow>
     salles w' = salles w \<and> utilisateurs w' = utilisateurs w \<and>
     (case rep of
        Cancelled b \<Rightarrow>
          reservations w' = map (\<lambda>r. if r_id r = rid then cancel_row e r else r) (reservations w)
      | Refused f \<Rightarrow> reservations w' = reservations w \<and> notifications w' = notifications w
      | NoReply \<Rightarrow>
          reservations w' = reservations w \<or>
          reservations w' = map (\<lambda>r. if r_id r = rid then cancel_row e r else r) (reservations w)
      | _ \<Rightarrow> False)"
  unfolding cancelReservation_def
  by (auto simp: Let_def split: if_splits prod.splits sum.splits reply.splits dest!: cancelReservation_try_cases)

lemma cancelReservation_nofault:
  "\<forall>q. \<not> fault e q \<Longrightarrow>
     fst (cancelReservation e user rid w) =
       (case filter (\<lambda>j. r_id (row j) = rid) (joined_rows w) of
          [] \<Rightarrow> Refused NotFound
        | j # _ \<Rightarrow>
            if p_role user \<noteq> ''admin'' \<and> utilisateur_id (row j) \<noteq> p_id user then Refused Forbidden
            else if statut (row j) \<noteq> ''active'' then Refused InvalidState
            else Cancelled \<lparr>an_smsStatus =
                   success (fst (sendCancellationSMS e (utilisateur_telephone j) (utilisateur_nom j)
                     (salle_nom j) (date (row j)) (heure_debut (row j)) (heure_fin (row j))
                     ((record_query UpdateStatut (record_query SelectReservation (record_query Begin w)))
                        \<lparr>reservations := map (\<lambda>r. if r_id r = rid
                                          then r\<lparr>statut := ''annulee'', updated_at := now e\<rparr> else r)
                                     (reservations w)\<rparr>))),
                 an_notificationStatus = True\<rparr>)"
  unfolding cancelReservation_def cancelReservation_try_def refuse_def
  by (auto simp: Let_def case_prod_beta split: list.splits)


lemma join_row_row: "join_row w r = Some j \<Longrightarrow> row j = r"
  by (auto simp: join_row_def split: option.splits)

lemma join_row_tables:
  "utilisateurs w' = utilisateurs w \<Longrightarrow> salles w' = salles w \<Longrightarrow> join_row w' = join_row w"
  by (simp add: join_row_def find_utilisateur_def find_salle_def fun_eq_iff split: option.split)

lemma join_row_cancel_row [simp]:
  "join_row w (cancel_row e r) = map_option (\<lambda>j. j\<lparr>row := cancel_row e r\<rparr>) (join_row w r)"
  by (simp add: join_row_def cancel_row_def split: option.splits)

lemma rows_wellformed_joinable:
  "rows_wellformed w \<Longrightarrow> list_all (\<lambda>r. join_row w r \<noteq> None) (reservations w)"
  by (auto simp: rows_wellformed_def list_all_iff join_row_def split: option.splits)

lemma joined_filter_find:
  "list_all (\<lambda>r. join_row w r \<noteq> None) rs \<Longrightarrow>
     (case filter (\<lambda>j. r_id (row j) = rid) (List.map_filter (join_row w) rs) of
        [] \<Rightarrow> find (\<lambda>r. r_id r = rid) rs = None
      | j # _ \<Rightarrow> find (\<lambda>r. r_id r = rid) rs = Some (row j))"
proof (induction rs)
  case Nil
  then show ?case by (simp add: map_filter_simps)
next
  case (Cons r rs)
  then obtain j where j: "join_row w r = Some j" by auto
  have rj: "row j = r" using j by (rule join_row_row)
  show ?case
  proof (cases "r_id r = rid")
    case True
    then show ?thesis using j rj by (simp add: map_filter_simps)
  next
    case False
    then show ?thesis using j rj Cons by (simp add: map_filter_simps split: list.splits)
  qed
qed

lemma find_cancelled:
  "find (\<lambda>r. r_id r = rid) (map (\<lambda>r. if r_id r = rid then cancel_row e r else r) rs) =
     map_option (cancel_row e) (find (\<lambda>r. r_id r = rid) rs)"
  by (induction rs) (auto simp: cancel_row_def)

lemma cancelReservation_nofault_kind:
  "\<forall>q. \<not> fault e q \<Longrightarrow>
     (case filter (\<lambda>j. r_id (row j) = rid) (joined_rows w) of
        [] \<Rightarrow> fst (cancelReservation e user rid w) = Refused NotFound
      | j # _ \<Rightarrow>
          if p_role user \<noteq> ''admin'' \<and> utilisateur_id (row j) \<noteq> p_id user
          then fst (cancelReservation e user rid w) = Refused Forbidden
          else if statut (row j) \<noteq> ''active''
          then fst (cancelReservation e user rid w) = Refused InvalidState
          else (\<exists>b. fst (cancelReservation e user rid w) = Cancelled b))"
  by (simp add: cancelReservation_nofault split: list.split)


subsection \<open>The priority route\<close>

lemma notify_conflicts_tables [simp]:
  "salles (snd (notify_conflicts e rows st w)) = salles w"
  "utilisateurs (snd (notify_conflicts e rows st w)) = utilisateurs w"
  "reservations (snd (notify_conflicts e rows st w)) = reservations w"
proof (induction rows arbitrary: st w)
  case Nil
  { case 1 show ?case by simp }
  { case 2 show ?case by simp }
  { case 3 show ?case by simp }
next
  case (Cons j rows)
  { case 1 show ?case by (simp add: Let_def case_prod_beta Cons.IH(1)) }
  { case 2 show ?case by (simp add: Let_def case_prod_beta Cons.IH(2)) }
  { case 3 show ?case by (simp add: Let_def case_prod_beta Cons.IH(3)) }
qed

lemma cancel_conflicts_tables [simp]:
  "salles (snd (cancel_conflicts e rows w)) = salles w"
  "utilisateurs (snd (cancel_conflicts e rows w)) = utilisateurs w"
  by (simp_all add: cancel_conflicts_def Let_def case_prod_beta)

lemma cancel_conflicts_Inl: "fst (cancel_conflicts e rows w) = Inl f \<Longrightarrow> f = StorageFault \<and> fault e UpdateStatut"
  by (auto simp: cancel_conflicts_def Let_def case_prod_beta split: if_splits)

lemma cancel_conflicts_Inr:
  "fst (cancel_conflicts e rows w) = Inr st \<Longrightarrow>
     reservations (snd (cancel_conflicts e rows w)) =
       map (\<lambda>r. if r_id r \<in> set (map (\<lambda>j. r_id (row j)) rows) then cancel_row e r else r)
           (reservations w)"
  by (auto simp: cancel_conflicts_def Let_def case_prod_beta cancel_row_def split: if_splits)


lemma fresh_id_ids:
  "map r_id (reservations w') = map r_id (reservations w) \<Longrightarrow> fresh_id w' = fresh_id w"
  by (simp add: fresh_id_def)

lemma new_reservation_ids:
  "map r_id (reservations w') = map r_id (reservations w) \<Longrightarrow>
     new_reservation e u r w' = new_reservation e u r w"
  by (simp add: new_reservation_def fresh_id_def)

lemma cancel_row_fields [simp]:
  "r_id (cancel_row e r) = r_id r"
  "utilisateur_id (cancel_row e r) = utilisateur_id r"
  "salle_id (cancel_row e r) = salle_id r"
  "date (cancel_row e r) = date r"
  "heure_debut (cancel_row e r) = heure_debut r"
  "heure_fin (cancel_row e r) = heure_fin r"
  "statut (cancel_row e r) = ''annulee''"
  by (simp_all add: cancel_row_def)

lemma map_r_id_cancel [simp]:
  "map r_id (map (\<lambda>r. if P r then cancel_row e r else r) rs) = map r_id rs"
  by (induction rs) simp_all

lemma priority_conflicts_record_query [simp]:
  "priority_conflicts (record_query q w) a b c d = priority_conflicts w a b c d"
  by (simp add: priority_conflicts_def)

lemma priority_checks_record_query [simp]:
  "priority_checks e req (record_query q w) = priority_checks e req w"
  by (simp add: priority_checks_def)

lemma createPriorityReservation_try_cases:
  "createPriorityReservation_try e user req w0 = (res, w1) \<Longrightarrow>
     salles w1 = salles w0 \<and> utilisateurs w1 = utilisateurs w0 \<and>
     (case res of
        Inr body \<Rightarrow>
          reservations w1 = preempt e req w0 @ [new_reservation e user req w0] \<and>
          pb_reservation body = new_reservation e user req w0 \<and>
          reservations_annulees body =
            length (priority_conflicts w0 (q_salle_id req) (local_day e (q_date req))
                      (minutes_of (q_heure_debut req)) (minutes_of (q_heure_fin req))) \<and>
          priority_checks e req w0 = None
      | Inl f \<Rightarrow> (f = StorageFault \<or> priority_checks e req w0 = Some f) \<and> f \<noteq> SlotConflict)"
proof -
  assume run: "createPriorityReservation_try e user req w0 = (res, w1)"
  let ?rows = "priority_conflicts w0 (q_salle_id req) (local_day e (q_date req))
                 (minutes_of (q_heure_debut req)) (minutes_of (q_heure_fin req))"
  let ?w2 = "record_query SelectConflicts (record_query SelectSalle w0)"
  let ?cc = "cancel_conflicts e ?rows ?w2"
  have new: "new_reservation e user req (record_query InsertReservation (snd ?cc)) =
             new_reservation e user req w0"
    if "fst ?cc = Inr st" for st
    by (rule new_reservation_ids) (simp add: cancel_conflicts_Inr [OF that])
  have rs: "reservations (snd ?cc) = preempt e req w0" if "fst ?cc = Inr st" for st
    by (simp add: cancel_conflicts_Inr [OF that] preempt_def)
  show ?thesis
    using run new rs cancel_conflicts_Inl [of e ?rows ?w2]
    unfolding createPriorityReservation_try_def priority_checks_def
    by (auto simp: Let_def case_prod_beta split: if_splits option.splits sum.splits)
qed


lemma createPriorityReservation_cases:
  "createPriorityReservation e user req w = (rep, w') \<Longrightarrow>
     salles w' = salles w \<and> utilisateurs w' = utilisateurs w \<and>
     (case rep of
        PriorityCreated body \<Rightarrow>
          reservations w' = preempt e req w @ [new_reservation e user req w] \<and>
          pb_reservation body = new_reservation e user req w \<and>
          reservations_annulees body =
            length (priority_conflicts w (q_salle_id req) (local_day e (q_date req))
                      (minutes_of (q_heure_debut req)) (minutes_of (q_heure_fin req))) \<and>
          priority_checks e req w = None
      | Refused f \<Rightarrow>
          reservations w' = reservations w \<and> notifications w' = notifications w \<and>
          f \<noteq> SlotConflict
      | _ \<Rightarrow> False)"
  unfolding createPriorityReservation_def
  by (auto simp: Let_def preempt_def split: if_splits prod.splits sum.splits
      dest!: createPriorityReservation_try_cases)



lemma joined_rows_all:
  "list_all (\<lambda>r. join_row w r \<noteq> None) rs \<Longrightarrow> map row (List.map_filter (join_row w) rs) = rs"
proof (induction rs)
  case Nil
  then show ?case by (simp add: map_filter_simps)
next
  case (Cons r rs)
  then obtain j where j: "join_row w r = Some j" by auto
  then show ?case using Cons join_row_row [OF j] by (simp add: map_filter_simps)
qed

lemma map_filter_through: "map f (filter (\<lambda>x. P (f x)) xs) = filter P (map f xs)"
  by (induction xs) auto

lemma priority_conflicts_rows:
  assumes "rows_wellformed w"
  shows "map row (priority_conflicts w p1 p2 p3 p4) =
         filter (\<lambda>r. salle_id r = p1 \<and> date r = p2 \<and> statut r = ''active'' \<and>
                     priority_conflict_clause r p3 p4) (reservations w)"
proof -
  have "map row (joined_rows w) = reservations w"
    unfolding joined_rows_def by (rule joined_rows_all [OF rows_wellformed_joinable [OF assms]])
  then show ?thesis
    unfolding priority_conflicts_def
    using map_filter_through [of row "\<lambda>r. salle_id r = p1 \<and> date r = p2 \<and> statut r = ''active'' \<and>
                     priority_conflict_clause r p3 p4" "joined_rows w"]
    by simp
qed

lemma priority_conflicts_preempted:
  assumes wf: "rows_wellformed w"
    and dur: "minutes_of (q_heure_debut req) < minutes_of (q_heure_fin req)"
  shows "map row (priority_conflicts w (q_salle_id req) (local_day e (q_date req))
                    (minutes_of (q_heure_debut req)) (minutes_of (q_heure_fin req))) =
         filter (preempted_by e req) (reservations w)"
proof -
  have pos: "\<forall>r\<in>set (reservations w). heure_debut r < heure_fin r"
    using wf by (simp add: rows_wellformed_def list_all_iff)
  have "filter (\<lambda>r. salle_id r = q_salle_id req \<and> date r = local_day e (q_date req) \<and> statut r = ''active'' \<and>
                     priority_conflict_clause r (minutes_of (q_heure_debut req))
                       (minutes_of (q_heure_fin req))) (reservations w) =
        filter (preempted_by e req) (reservations w)"
  proof (rule filter_cong [OF refl])
    fix r assume "r \<in> set (reservations w)"
    then have "heure_debut r < heure_fin r" using pos by simp
    then show "(salle_id r = q_salle_id req \<and> date r = local_day e (q_date req) \<and> statut r = ''active'' \<and>
                     priority_conflict_clause r (minutes_of (q_heure_debut req))
                       (minutes_of (q_heure_fin req))) = preempted_by e req r"
      using dur unfolding preempted_by_def priority_conflict_clause_def spec_overlap_def by auto
  qed
  then show ?thesis using priority_conflicts_rows [OF wf] by simp
qed

lemma preempt_preempted:
  assumes wf: "rows_wellformed w"
    and dur: "minutes_of (q_heure_debut req) < minutes_of (q_heure_fin req)"
  shows "preempt e req w =
         map (\<lambda>r. if preempted_by e req r then cancel_row e r else r) (reservations w)"
proof -
  have dist: "distinct (map r_id (reservations w))" using wf by (simp add: rows_wellformed_def)
  have ids: "map (\<lambda>j. r_id (row j)) (priority_conflicts w (q_salle_id req) (local_day e (q_date req))
                    (minutes_of (q_heure_debut req)) (minutes_of (q_heure_fin req))) =
             map r_id (filter (preempted_by e req) (reservations w))"
    using priority_conflicts_preempted [OF wf dur, THEN arg_cong, of "map r_id"]
    by (simp add: comp_def)
  have "(r_id r \<in> set (map r_id (filter (preempted_by e req) (reservations w)))) = preempted_by e req r"
    if "r \<in> set (reservations w)" for r
  proof
    assume "r_id r \<in> set (map r_id (filter (preempted_by e req) (reservations w)))"
    then obtain x where x: "x \<in> set (reservations w)" "preempted_by e req x" "r_id x = r_id r"
      by auto
    then have "x = r" using dist that by (meson distinct_map inj_onD)
    then show "preempted_by e req r" using x by simp
  next
    assume "preempted_by e req r"
    then show "r_id r \<in> set (map r_id (filter (preempted_by e req) (reservations w)))"
      using that by auto
  qed
  then show ?thesis unfolding preempt_def ids by (intro map_cong) simp_all
qed




subsection \<open>The journal\<close>

lemma new_events_append: "journal w' = journal w @ evs \<Longrightarrow> new_events w w' = evs"
  by (simp add: new_events_def)

lemma no_delimiter_simps [simp]:
  "no_delimiter []"
  "no_delimiter (ev # evs) =
     (ev \<noteq> Query Begin \<and> ev \<noteq> Query Commit \<and> ev \<noteq> Query Rollback \<and> no_delimiter evs)"
  "no_delimiter (xs @ ys) = (no_delimiter xs \<and> no_delimiter ys)"
  by (auto simp: no_delimiter_def)

lemma no_query_no_delimiter: "\<forall>q. Query q \<notin> set evs \<Longrightarrow> no_delimiter evs"
  by (simp add: no_delimiter_def)

lemma list_ex_id_set: "list_ex id bs = (True \<in> set bs)"
  by (auto simp: list_ex_iff)

lemma sms_outcomes_append [simp]: "sms_outcomes (xs @ ys) = sms_outcomes xs @ sms_outcomes ys"
  by (induction xs rule: sms_outcomes.induct) simp_all

lemma sendSMS_journal:
  "\<exists>evs. journal (snd (sendSMS e t m w)) = journal w @ evs \<and> (\<forall>q. Query q \<notin> set evs) \<and>
         sms_outcomes evs = [success (fst (sendSMS e t m w))]"
  by (auto simp: sendSMS_def sendSMS_try_def Let_def split: option.splits)

lemma sendSMS_after_await_success [simp]:
  "success (fst (sendSMS_after_await t m r w)) = answered r"
  "dest (fst (sendSMS_after_await t m r w)) = t"
  by (simp_all add: sendSMS_after_await_def answered_def split: sum.splits option.splits)

lemma sendSMS_after_await_journal [simp]:
  "journal (snd (sendSMS_after_await t m r w)) = journal w @ [SmsOutcome t (answered r)]"
  by (simp add: sendSMS_after_await_def answered_def split: sum.splits option.splits)

lemma isl_not_answered: "isl r \<Longrightarrow> \<not> answered r"
  by (cases r) (simp_all add: answered_def)

lemma launch_all_journal:
  "\<exists>evs. journal (snd (launch_all e us m w)) = journal w @ evs \<and> (\<forall>q. Query q \<notin> set evs) \<and>
         sms_outcomes evs =
           map (\<lambda>c. answered (snd c)) (filter (\<lambda>c. isl (snd c)) (fst (launch_all e us m w)))"
proof (induction us arbitrary: w)
  case Nil
  then show ?case by simp
next
  case (Cons u us)
  define r where "r = fst (sendSMS_until_await e (u_telephone u) m w)"
  define w1 where "w1 = snd (sendSMS_until_await e (u_telephone u) m w)"
  define w2 where "w2 = (if isl r then snd (sendSMS_after_await (u_telephone u) m r w1) else w1)"
  have "\<exists>ev1. journal w1 = journal w @ ev1 \<and> (\<forall>q. Query q \<notin> set ev1) \<and> sms_outcomes ev1 = []"
    unfolding w1_def by (auto simp: sendSMS_until_await_def split: option.splits)
  then obtain ev1 where ev1: "journal w1 = journal w @ ev1" "\<forall>q. Query q \<notin> set ev1"
      "sms_outcomes ev1 = []"
    by blast
  obtain ev2 where ev2: "journal (snd (launch_all e us m w2)) = journal w2 @ ev2"
      "\<forall>q. Query q \<notin> set ev2"
      "sms_outcomes ev2 =
         map (\<lambda>c. answered (snd c)) (filter (\<lambda>c. isl (snd c)) (fst (launch_all e us m w2)))"
    using Cons.IH [of w2] by blast
  have step: "launch_all e (u # us) m w =
              ((u_telephone u, r) # fst (launch_all e us m w2), snd (launch_all e us m w2))"
    by (simp add: case_prod_beta Let_def r_def w1_def w2_def)
  show ?case
  proof (cases "isl r")
    case True
    then have "journal w2 = journal w @ ev1 @ [SmsOutcome (u_telephone u) (answered r)]"
      by (simp add: w2_def ev1(1))
    then show ?thesis
      unfolding step using True ev1 ev2
      by (intro exI [of _ "ev1 @ [SmsOutcome (u_telephone u) (answered r)] @ ev2"]) simp
  next
    case False
    then have "journal w2 = journal w @ ev1" by (simp add: w2_def ev1(1))
    then show ?thesis
      unfolding step using False ev1 ev2
      by (intro exI [of _ "ev1 @ ev2"]) simp
  qed
qed

lemma settle_all_journal:
  "journal (settle_all m cs w) = journal w @ map (\<lambda>c. SmsOutcome (fst c) (answered (snd c))) cs"
  by (induction cs arbitrary: w) simp_all

lemma sms_outcomes_settled [simp]:
  "sms_outcomes (map (\<lambda>c. SmsOutcome (fst c) (answered (snd c))) cs) = map (\<lambda>c. answered (snd c)) cs"
  by (induction cs) simp_all

lemma no_query_settled [simp]:
  "Query q \<notin> set (map (\<lambda>c. SmsOutcome (fst c) (answered (snd c))) cs)"
  by (induction cs) simp_all

lemma send_all_results:
  "map success (fst (send_all e us m w)) = map (\<lambda>c. answered (snd c)) (fst (launch_all e us m w))"
  by (simp add: send_all_def case_prod_beta Let_def)

lemma send_all_journal:
  "\<exists>evs. journal (snd (send_all e us m w)) = journal w @ evs \<and> (\<forall>q. Query q \<notin> set evs) \<and>
         set (sms_outcomes evs) = set (map success (fst (send_all e us m w)))"
proof -
  define cs where "cs = fst (launch_all e us m w)"
  define settling where
    "settling = map snd (sort_key (\<lambda>ic. settle_rank e (fst ic))
                   (filter (\<lambda>ic. \<not> isl (snd (snd ic))) (enumerate 0 cs)))"
  obtain ev1 where ev1: "journal (snd (launch_all e us m w)) = journal w @ ev1"
      "\<forall>q. Query q \<notin> set ev1"
      "sms_outcomes ev1 = map (\<lambda>c. answered (snd c)) (filter (\<lambda>c. isl (snd c)) cs)"
    unfolding cs_def using launch_all_journal by blast
  have "map snd (filter (\<lambda>ic. \<not> isl (snd (snd ic))) (enumerate 0 cs)) =
        filter (\<lambda>c. \<not> isl (snd c)) cs"
    using map_filter_through [of snd "\<lambda>c. \<not> isl (snd c)" "enumerate 0 cs"] by simp
  then have "set (map snd (filter (\<lambda>ic. \<not> isl (snd (snd ic))) (enumerate 0 cs))) =
             {c \<in> set cs. \<not> isl (snd c)}"
    by simp
  then have st: "set settling = {c \<in> set cs. \<not> isl (snd c)}"
    by (simp add: settling_def)
  let ?evs = "ev1 @ map (\<lambda>c. SmsOutcome (fst c) (answered (snd c))) settling"
  have j: "journal (snd (send_all e us m w)) = journal w @ ?evs"
    by (simp add: send_all_def case_prod_beta Let_def settle_all_journal ev1(1)
        settling_def cs_def)
  have q: "\<forall>q. Query q \<notin> set ?evs" using ev1(2) by auto
  have "set (sms_outcomes ?evs) = (\<lambda>c. answered (snd c)) ` set cs"
    using st by (auto simp: ev1(3))
  then have o: "set (sms_outcomes ?evs) = set (map success (fst (send_all e us m w)))"
    by (simp add: send_all_results cs_def)
  show ?thesis using j q o by blast
qed

lemma sendReservationSMS_journal:
  "\<exists>evs. journal (snd (sendReservationSMS e n d a b w)) = journal w @ evs \<and>
         no_delimiter evs \<and>
         set (sms_outcomes evs) = set (map success (rs_results (fst (sendReservationSMS e n d a b w))))"
proof -
  obtain evs where evs:
      "journal (snd (send_all e (utilisateurs w) (NouvelleReservation n d a b)
                       (record_query SelectRoster w))) =
         journal (record_query SelectRoster w) @ evs"
      "\<forall>q. Query q \<notin> set evs"
      "set (sms_outcomes evs) =
         set (map success (fst (send_all e (utilisateurs w) (NouvelleReservation n d a b)
                       (record_query SelectRoster w))))"
    using send_all_journal [of e "utilisateurs w" "NouvelleReservation n d a b"
        "record_query SelectRoster w"] by blast
  show ?thesis
  proof (cases "fault e SelectRoster \<or> utilisateurs w = []")
    case True
    then show ?thesis
      by (intro exI [of _ "[Query SelectRoster]"]) (auto simp: sendReservationSMS_def Let_def)
  next
    case False
    then show ?thesis
      using evs no_query_no_delimiter [OF evs(2)]
      by (intro exI [of _ "Query SelectRoster # evs"])
         (simp add: sendReservationSMS_def Let_def case_prod_beta)
  qed
qed

lemma rs_success_iff:
  "rs_success (fst (sendReservationSMS e n d a b w)) =
     list_ex success (rs_results (fst (sendReservationSMS e n d a b w)))"
  by (auto simp: sendReservationSMS_def Let_def case_prod_beta list_ex_iff filter_empty_conv)



lemma sendSMS_silent: "\<forall>k. twilio e k = None \<Longrightarrow> \<not> success (fst (sendSMS e t m w))"
  by (simp add: sendSMS_def sendSMS_try_def Let_def split: option.splits)





lemma createReservation_try_journal:
  assumes "createReservation_try e user req w0 = (Inr body, w1)"
  shows "\<exists>evs. journal w1 = journal w0 @ evs @ [Query Commit] \<and> no_delimiter evs \<and>
           cb_smsStatus body = list_ex id (sms_outcomes evs)"
proof -
  let ?w3 = "record_query InsertReservation (record_query SelectConflicts (record_query SelectSalle w0))"
  let ?w4 = "?w3\<lparr>reservations := reservations ?w3 @ [new_reservation e user req ?w3]\<rparr>"
  obtain s where s: "find_salle w0 (q_salle_id req) = Some s"
    using assms unfolding createReservation_try_def
    by (auto simp: Let_def split: if_splits option.splits)
  let ?R = "sendReservationSMS e (s_nom s) (local_day e (q_date req)) (minutes_of (q_heure_debut req))
              (minutes_of (q_heure_fin req)) ?w4"
  obtain evs where evs: "journal (snd ?R) = journal ?w4 @ evs" "no_delimiter evs"
      "set (sms_outcomes evs) = set (map success (rs_results (fst ?R)))"
    using sendReservationSMS_journal by blast
  have flag: "rs_success (fst ?R) = list_ex id (sms_outcomes evs)"
    unfolding list_ex_id_set evs(3) by (auto simp: rs_success_iff list_ex_iff)
  have j4: "journal ?w4 = journal w0 @ [Query SelectSalle, Query SelectConflicts, Query InsertReservation]"
    by simp
  have "journal w1 = journal (snd ?R) @ [Query (InsertNotification (fresh_id w0)), Query Commit] \<and>
        cb_smsStatus body = rs_success (fst ?R)"
    using assms s unfolding createReservation_try_def checkReservationConflict_def
    by (auto simp: Let_def case_prod_beta new_reservation_def split: if_splits)
  then show ?thesis
    using evs(1,2) j4 flag
    by (intro exI [of _ "[Query SelectSalle, Query SelectConflicts, Query InsertReservation] @ evs
                          @ [Query (InsertNotification (fresh_id w0))]"])
       simp
qed


lemma createReservation_journal:
  assumes "createReservation e user req w = (Created body, w')"
  shows "\<exists>evs. journal w' = journal w @ Query Begin # evs @ [Query Commit] \<and> no_delimiter evs \<and>
           cb_smsStatus body = list_ex id (sms_outcomes evs)"
proof -
  have run: "createReservation_try e user req (record_query Begin w) = (Inr body, w')"
    using assms unfolding createReservation_def
    by (auto simp: Let_def split: if_splits prod.splits sum.splits)
  obtain evs where "journal w' = journal (record_query Begin w) @ evs @ [Query Commit]"
      "no_delimiter evs" "cb_smsStatus body = list_ex id (sms_outcomes evs)"
    using createReservation_try_journal [OF run] by blast
  then show ?thesis
    by (intro exI [of _ evs]) simp
qed

lemma cancelReservation_journal:
  assumes "cancelReservation e user rid w = (Cancelled body, w')"
  shows "\<exists>evs. journal w' = journal w @ Query Begin # evs @ [Query Commit] \<and> no_delimiter evs \<and>
           sms_outcomes evs = [an_smsStatus body]"
proof -
  have run: "cancelReservation_try e user rid w = (Inr (Cancelled body), w')"
    using assms unfolding cancelReservation_def
    by (auto simp: Let_def split: if_splits prod.splits sum.splits)
  obtain j js where j: "filter (\<lambda>j. r_id (row j) = rid) (joined_rows w) = j # js"
    using run unfolding cancelReservation_try_def refuse_def
    by (auto simp: Let_def split: if_splits list.splits)
  let ?w2 = "record_query UpdateStatut (record_query SelectReservation (record_query Begin w))"
  let ?w3 = "?w2\<lparr>reservations :=
                 map (\<lambda>r. if r_id r = rid then r\<lparr>statut := ''annulee'', updated_at := now e\<rparr> else r)
                     (reservations ?w2)\<rparr>"
  let ?S = "sendSMS e (utilisateur_telephone j)
              (ReservationAnnulee (case utilisateur_nom j of None \<Rightarrow> ''null'' | Some n \<Rightarrow> n)
                 (salle_nom j) (date (row j)) (heure_debut (row j)) (heure_fin (row j))) ?w3"
  obtain evs where evs: "journal (snd ?S) = journal ?w3 @ evs" "\<forall>q. Query q \<notin> set evs"
      "sms_outcomes evs = [success (fst ?S)]"
    using sendSMS_journal by blast
  have "journal w' = journal (snd ?S) @ [Query (InsertNotification (r_id (row j))), Query Commit] \<and>
        an_smsStatus body = success (fst ?S)"
    using run j unfolding cancelReservation_try_def refuse_def sendCancellationSMS_def
    by (auto simp: Let_def case_prod_beta split: if_splits)
  then show ?thesis
    using evs no_query_no_delimiter [OF evs(2)]
    by (intro exI [of _ "[Query SelectReservation, Query UpdateStatut] @ evs
                          @ [Query (InsertNotification (r_id (row j)))]"])
       simp
qed

lemma notify_conflicts_journal:
  "\<exists>evs. journal (snd (notify_conflicts e rows st w)) = journal w @ evs \<and>
         no_delimiter evs \<and> length (sms_outcomes evs) = length rows \<and>
         fst (fst (notify_conflicts e rows st w)) = (fst st \<and> list_all id (sms_outcomes evs))"
proof (induction rows arbitrary: st w)
  case Nil
  then show ?case by simp
next
  case (Cons c rows)
  define S where "S = sendSMS e (utilisateur_telephone c)
              (ReservationModifiee (case utilisateur_nom c of None \<Rightarrow> ''null'' | Some n \<Rightarrow> n)
                 (salle_nom c) (date (row c)) (heure_debut (row c)) (heure_fin (row c))) w"
  define w3 where "w3 = (if fault e (InsertNotification (r_id (row c)))
             then record_query (InsertNotification (r_id (row c))) (snd S)
             else insert_notification (utilisateur_id (row c)) (r_id (row c)) (success (fst S))
                    (record_query (InsertNotification (r_id (row c))) (snd S)))"
  define st' where "st' = (if \<not> success (fst S) then False else fst st,
              if fault e (InsertNotification (r_id (row c))) then False else snd st)"
  obtain ev1 where ev1: "journal (snd S) = journal w @ ev1" "\<forall>q. Query q \<notin> set ev1"
      "sms_outcomes ev1 = [success (fst S)]"
    unfolding S_def using sendSMS_journal by blast
  obtain ev2 where ev2: "journal (snd (notify_conflicts e rows st' w3)) = journal w3 @ ev2"
      "no_delimiter ev2" "length (sms_outcomes ev2) = length rows"
      "fst (fst (notify_conflicts e rows st' w3)) = (fst st' \<and> list_all id (sms_outcomes ev2))"
    using Cons.IH [of st' w3] by blast
  have step: "notify_conflicts e (c # rows) st w = notify_conflicts e rows st' w3"
    by (simp add: sendPriorityReservationSMS_def Let_def case_prod_beta S_def w3_def st'_def)
  have j3: "journal w3 = journal w @ ev1 @ [Query (InsertNotification (r_id (row c)))]"
    using ev1(1) by (simp add: w3_def)
  have f: "fst st' = (success (fst S) \<and> fst st)" by (simp add: st'_def)
  have c1: "journal (snd (notify_conflicts e (c # rows) st w)) =
            journal w @ (ev1 @ [Query (InsertNotification (r_id (row c)))] @ ev2)"
    unfolding step by (simp add: ev2(1) j3)
  have c2: "no_delimiter (ev1 @ [Query (InsertNotification (r_id (row c)))] @ ev2)"
    using no_query_no_delimiter [OF ev1(2)] ev2(2) by simp
  have c3: "length (sms_outcomes (ev1 @ [Query (InsertNotification (r_id (row c)))] @ ev2)) =
            length (c # rows)"
    by (simp add: ev1(3) ev2(3))
  have c4: "fst (fst (notify_conflicts e (c # rows) st w)) =
            (fst st \<and> list_all id (sms_outcomes (ev1 @ [Query (InsertNotification (r_id (row c)))] @ ev2)))"
    unfolding step using ev2(4) f by (auto simp: ev1(3))
  show ?case using c1 c2 c3 c4 by blast
qed

lemma cancel_conflicts_journal:
  "\<exists>evs. journal (snd (cancel_conflicts e rows w)) = journal w @ evs \<and>
         no_delimiter evs \<and>
         (\<forall>st. fst (cancel_conflicts e rows w) = Inr st \<longrightarrow>
            length (sms_outcomes evs) = length rows \<and> fst st = list_all id (sms_outcomes evs))"
proof (cases "rows = [] \<or> fault e UpdateStatut")
  case True
  then show ?thesis
  proof
    assume "rows = []"
    then show ?thesis by (intro exI [of _ "[]"]) (simp add: cancel_conflicts_def)
  next
    assume "fault e UpdateStatut"
    then show ?thesis
      by (cases "rows = []")
         (auto simp: cancel_conflicts_def Let_def intro: exI [of _ "[Query UpdateStatut]"] exI [of _ "[]"])
  qed
next
  case False
  let ?w1 = "record_query UpdateStatut w"
  let ?w2 = "?w1\<lparr>reservations :=
                 map (\<lambda>r. if r_id r \<in> set (map (\<lambda>j. r_id (row j)) rows)
                          then r\<lparr>statut := ''annulee'', updated_at := now e\<rparr> else r)
                     (reservations ?w1)\<rparr>"
  obtain evs where evs: "journal (snd (notify_conflicts e rows (True, True) ?w2)) = journal ?w2 @ evs"
      "no_delimiter evs" "length (sms_outcomes evs) = length rows"
      "fst (fst (notify_conflicts e rows (True, True) ?w2)) = (fst (True, True) \<and> list_all id (sms_outcomes evs))"
    using notify_conflicts_journal [of e rows "(True, True)" ?w2] by blast
  have eq: "cancel_conflicts e rows w =
            (Inr (fst (notify_conflicts e rows (True, True) ?w2)),
             snd (notify_conflicts e rows (True, True) ?w2))"
    using False by (simp add: cancel_conflicts_def Let_def case_prod_beta)
  show ?thesis
    unfolding eq using evs
    by (intro exI [of _ "Query UpdateStatut # evs"]) auto
qed


lemma createPriorityReservation_try_journal:
  assumes run: "createPriorityReservation_try e user req w0 = (Inr body, w1)"
  shows "\<exists>evs. journal w1 = journal w0 @ evs @ [Query Commit] \<and> no_delimiter evs \<and>
           length (sms_outcomes evs) = reservations_annulees body + 1 \<and>
           pb_smsStatus body = list_all id (sms_outcomes evs)"
proof -
  define rows where "rows = priority_conflicts w0 (q_salle_id req) (local_day e (q_date req))
                 (minutes_of (q_heure_debut req)) (minutes_of (q_heure_fin req))"
  define C where "C = cancel_conflicts e rows (record_query SelectConflicts (record_query SelectSalle w0))"
  obtain s where s: "find_salle w0 (q_salle_id req) = Some s"
    using run unfolding createPriorityReservation_try_def
    by (auto simp: Let_def split: if_splits option.splits)
  obtain st where st: "fst C = Inr st"
    using run s unfolding createPriorityReservation_try_def C_def rows_def
    by (auto simp: Let_def case_prod_beta split: if_splits sum.splits)
  define w5 where "w5 = (record_query InsertReservation (snd C))
      \<lparr>reservations := reservations (snd C) @
          [new_reservation e user req (snd C)]\<rparr>"
  define S where "S = sendSMS e (p_telephone user)
      (ReservationConfirmee (p_nom user) (s_nom s) (local_day e (q_date req)) (minutes_of (q_heure_debut req))
         (minutes_of (q_heure_fin req))) w5"
  obtain ev1 where ev1:
      "journal (snd C) = journal (record_query SelectConflicts (record_query SelectSalle w0)) @ ev1"
      "no_delimiter ev1"
      "length (sms_outcomes ev1) = length rows" "fst st = list_all id (sms_outcomes ev1)"
    unfolding C_def using cancel_conflicts_journal [of e rows] st [unfolded C_def] by blast
  obtain ev2 where ev2: "journal (snd S) = journal w5 @ ev2" "\<forall>q. Query q \<notin> set ev2"
      "sms_outcomes ev2 = [success (fst S)]"
    unfolding S_def using sendSMS_journal by blast
  have j5: "journal w5 = journal w0 @ [Query SelectSalle, Query SelectConflicts] @ ev1 @ [Query InsertReservation]"
    using ev1(1) by (simp add: w5_def)
  have out: "\<exists>k. journal w1 = journal (snd S) @ [Query (InsertNotification k), Query Commit]"
      "pb_smsStatus body = (if \<not> success (fst S) then False else fst st)"
      "reservations_annulees body = length rows"
    using run s st unfolding createPriorityReservation_try_def S_def w5_def C_def rows_def
    by (auto simp: Let_def case_prod_beta sendSingleReservationSMS_def split: if_splits)
  then obtain k where k: "journal w1 = journal (snd S) @ [Query (InsertNotification k), Query Commit]"
    by blast
  let ?evs = "[Query SelectSalle, Query SelectConflicts] @ ev1 @ [Query InsertReservation] @ ev2
              @ [Query (InsertNotification k)]"
  have c1: "journal w1 = journal w0 @ ?evs @ [Query Commit]"
    by (simp add: k ev2(1) j5)
  have c2: "no_delimiter ?evs" using ev1(2) no_query_no_delimiter [OF ev2(2)] by simp
  have c3: "length (sms_outcomes ?evs) = reservations_annulees body + 1"
    by (simp add: ev1(3) ev2(3) out(3))
  have c4: "pb_smsStatus body = list_all id (sms_outcomes ?evs)"
    using out(2) by (auto simp: ev1(4) ev2(3))
  show ?thesis using c1 c2 c3 c4 by blast
qed

lemma createPriorityReservation_journal:
  assumes "createPriorityReservation e user req w = (PriorityCreated body, w')"
  shows "\<exists>evs. journal w' = journal w @ Query Begin # evs @ [Query Commit] \<and> no_delimiter evs \<and>
           length (sms_outcomes evs) = reservations_annulees body + 1 \<and>
           pb_smsStatus body = list_all id (sms_outcomes evs)"
proof -
  have run: "createPriorityReservation_try e user req (record_query Begin w) = (Inr body, w')"
    using assms unfolding createPriorityReservation_def
    by (auto simp: Let_def split: if_splits prod.splits sum.splits)
  obtain evs where "journal w' = journal (record_query Begin w) @ evs @ [Query Commit]"
      "no_delimiter evs" "length (sms_outcomes evs) = reservations_annulees body + 1"
      "pb_smsStatus body = list_all id (sms_outcomes evs)"
    using createPriorityReservation_try_journal [OF run] by blast
  then show ?thesis
    by (intro exI [of _ evs]) simp
qed


subsection \<open>Runs on the small installation\<close>

lemmas run_defs =
  createReservation_def createReservation_try_def checkReservationConflict_def
  conflicting_rows_def conflict_clause_def
  createPriorityReservation_def createPriorityReservation_try_def priority_conflicts_def
  priority_conflict_clause_def cancel_conflicts_def
  cancelReservation_def cancelReservation_try_def refuse_def
  sendReservationSMS_def send_all_def sendSMS_until_await_def sendSMS_after_await_def sort_key_def
  sendSMS_def sendSMS_try_def sendSingleReservationSMS_def today_def local_day_def day_ms_def
  sendCancellationSMS_def sendPriorityReservationSMS_def phone_ok_def digit_def
  joined_rows_def join_row_def find_salle_def find_utilisateur_def map_filter_simps
  new_reservation_def fresh_id_def insert_notification_def rollback_def record_query_def
  minutes_of_def new_events_def Let_def case_prod_beta

lemmas office_defs =
  steady_env_def silent_env_def awa_def bea_def the_admin_def office_def booked_office_def
  row_9_10_def nine_to_ten_def half_past_nine_def

lemma first_run:
  "createReservation steady_env awa nine_to_ten office =
     (Created first_booking,
      office\<lparr>reservations := [cb_reservation first_booking],
             notifications := [\<lparr>n_utilisateur_id = 7, n_reservation_id = 1,
                                n_type = ''sms_envoye'', lu = False\<rparr>],
             journal := [Query Begin, Query SelectSalle, Query SelectConflicts,
                Query InsertReservation, Query SelectRoster, Dispatch ''+237655998106'',
                Dispatch ''+237677865607'', Dispatch ''+237670123456'',
                SmsOutcome (Some ''+237655998106'') True,
                SmsOutcome (Some ''+237677865607'') True,
                SmsOutcome (Some ''+237670123456'') True, Query (InsertNotification 1),
                Query Commit]\<rparr>)"
  by (simp add: run_defs office_defs first_booking_def)

lemma priority_run:
  "fst (createPriorityReservation steady_env the_admin half_past_nine booked_office) =
     PriorityCreated priority_booking \<and>
   journal (snd (createPriorityReservation steady_env the_admin half_past_nine booked_office)) =
     [Query Begin, Query SelectSalle, Query SelectConflicts, Query UpdateStatut,
      Dispatch ''+237677865607'', SmsOutcome (Some ''+237677865607'') True,
      Query (InsertNotification 3), Query InsertReservation,
      Dispatch ''+237655998106'', SmsOutcome (Some ''+237655998106'') True,
      Query (InsertNotification 4), Query Commit]"
  by (simp add: run_defs office_defs priority_booking_def)

lemma unheard_priority_run:
  "fst (createPriorityReservation silent_env the_admin half_past_nine booked_office) =
     PriorityCreated unheard_priority_booking \<and>
   journal (snd (createPriorityReservation silent_env the_admin half_past_nine booked_office)) =
     [Query Begin, Query SelectSalle, Query SelectConflicts, Query UpdateStatut,
      Dispatch ''+237677865607'', SmsOutcome (Some ''+237677865607'') False,
      Query (InsertNotification 3), Query InsertReservation,
      Dispatch ''+237655998106'', SmsOutcome (Some ''+237655998106'') False,
      Query (InsertNotification 4), Query Commit]"
  by (simp add: run_defs office_defs priority_booking_def unheard_priority_booking_def)

lemma cancel_run:
  "fst (cancelReservation steady_env awa 3 booked_office) =
     Cancelled \<lparr>an_smsStatus = True, an_notificationStatus = True\<rparr> \<and>
   journal (snd (cancelReservation steady_env awa 3 booked_office)) =
     [Query Begin, Query SelectReservation, Query UpdateStatut,
      Dispatch ''+237677865607'', SmsOutcome (Some ''+237677865607'') True,
      Query (InsertNotification 3), Query Commit]"
  by (simp add: run_defs office_defs)


lemma office_journal [simp]: "journal office = []" "journal booked_office = []"
  by (simp_all add: office_def booked_office_def)

subsection \<open>Bookings and the outcome of the messages\<close>

lemma createReservation_tables [simp]:
  "salles (snd (createReservation e user req w)) = salles w"
  "utilisateurs (snd (createReservation e user req w)) = utilisateurs w"
  unfolding createReservation_def createReservation_try_def checkReservationConflict_def
  by (auto simp: Let_def case_prod_beta split: if_splits option.splits sum.splits)

lemma createReservation_failed_iff:
  "failed (fst (createReservation e user req w)) =
     (fault e Begin \<or> fault e SelectSalle \<or> fault e SelectConflicts \<or>
      fault e InsertReservation \<or> fault e Commit \<or> create_checks e req w \<noteq> None)"
  unfolding createReservation_def createReservation_try_def checkReservationConflict_def
    create_checks_def
  by (auto simp: Let_def case_prod_beta split: if_splits option.splits sum.splits)

lemma createReservation_reservations:
  "reservations (snd (createReservation e user req w)) =
     (if failed (fst (createReservation e user req w)) then reservations w
      else reservations w @ [new_reservation e user req w])"
  using createReservation_cases [of e user req w "fst (createReservation e user req w)"
      "snd (createReservation e user req w)"]
  by (auto split: reply.splits)




subsection \<open>The booking invariant\<close>

lemma fold_max_base: "a \<le> fold max xs (a::nat)"
proof (induction xs arbitrary: a)
  case Nil
  then show ?case by simp
next
  case (Cons y ys)
  have "a \<le> max y a" by simp
  also have "\<dots> \<le> fold max ys (max y a)" by (rule Cons.IH)
  finally show ?case by simp
qed

lemma fold_max_mem: "x \<in> set xs \<Longrightarrow> x \<le> fold max xs (a::nat)"
proof (induction xs arbitrary: a)
  case Nil
  then show ?case by simp
next
  case (Cons y ys)
  show ?case
  proof (cases "x = y")
    case True
    have "y \<le> max y a" by simp
    also have "\<dots> \<le> fold max ys (max y a)" by (rule fold_max_base)
    finally show ?thesis using True by simp
  next
    case False
    then have "x \<in> set ys" using Cons.prems by simp
    then show ?thesis using Cons.IH by simp
  qed
qed

lemma fresh_id_fresh: "r \<in> set (reservations w) \<Longrightarrow> r_id r < fresh_id w"
  using fold_max_mem [of "r_id r" "map r_id (reservations w)" 0]
  by (simp add: fresh_id_def less_Suc_eq_le)

lemma double_booked_sym: "double_booked a b = double_booked b a"
  by (auto simp: double_booked_def spec_overlap_def)

lemma double_booked_cancel_row [simp]:
  "\<not> double_booked (cancel_row e a) b" "\<not> double_booked a (cancel_row e b)"
  by (simp_all add: double_booked_def)

lemma booking_invariant_tables:
  "booking_invariant w \<Longrightarrow> reservations w' = reservations w \<Longrightarrow>
   utilisateurs w' = utilisateurs w \<Longrightarrow> salles w' = salles w \<Longrightarrow> booking_invariant w'"
  by (simp add: booking_invariant_def rows_wellformed_def find_utilisateur_def find_salle_def)

lemma booking_invariant_cancelled:
  assumes inv: "booking_invariant w"
    and rs: "reservations w' = map (\<lambda>r. if P r then cancel_row e r else r) (reservations w)"
    and tabs: "utilisateurs w' = utilisateurs w" "salles w' = salles w"
  shows "booking_invariant w'"
proof -
  have ids: "map r_id (reservations w') = map r_id (reservations w)"
    unfolding rs by (rule map_r_id_cancel)
  have "list_all (\<lambda>r. heure_debut r < heure_fin r \<and>
                     find_utilisateur w' (utilisateur_id r) \<noteq> None \<and>
                     find_salle w' (salle_id r) \<noteq> None) (reservations w')"
    using inv
    by (auto simp: booking_invariant_def rows_wellformed_def rs tabs list_all_iff
        find_utilisateur_def find_salle_def)
  moreover have "distinct (map r_id (reservations w'))"
    using inv unfolding ids by (simp add: booking_invariant_def rows_wellformed_def)
  ultimately have wf: "rows_wellformed w'" by (simp add: rows_wellformed_def)
  have "sorted_wrt (\<lambda>a b. \<not> double_booked a b) (reservations w)"
    using inv by (simp add: booking_invariant_def)
  then have "sorted_wrt (\<lambda>a b. \<not> double_booked (if P a then cancel_row e a else a)
                                    (if P b then cancel_row e b else b)) (reservations w)"
    by (rule sorted_wrt_mono_rel [rotated]) auto
  then show ?thesis using wf by (simp add: booking_invariant_def rs sorted_wrt_map)
qed

lemma booking_invariant_appended:
  assumes inv: "booking_invariant w"
    and rs: "reservations w' = reservations w @ [n]"
    and tabs: "utilisateurs w' = utilisateurs w" "salles w' = salles w"
    and new: "r_id n \<notin> set (map r_id (reservations w))" "heure_debut n < heure_fin n"
      "find_utilisateur w (utilisateur_id n) \<noteq> None" "find_salle w (salle_id n) \<noteq> None"
    and free: "\<forall>x\<in>set (reservations w). \<not> double_booked x n"
  shows "booking_invariant w'"
  using inv new free
  by (auto simp: booking_invariant_def rows_wellformed_def rs tabs list_all_iff
      find_utilisateur_def find_salle_def sorted_wrt_append)


lemma create_checks_None:
  "create_checks e req w = None \<Longrightarrow>
     minutes_of (q_heure_debut req) < minutes_of (q_heure_fin req) \<and>
     find_salle w (q_salle_id req) \<noteq> None \<and>
     conflicting_rows w (q_salle_id req) (local_day e (q_date req)) (minutes_of (q_heure_debut req))
       (minutes_of (q_heure_fin req)) None = []"
  by (auto simp: create_checks_def split: if_splits option.splits)

lemma priority_checks_None:
  "priority_checks e req w = None \<Longrightarrow>
     minutes_of (q_heure_debut req) < minutes_of (q_heure_fin req) \<and>
     find_salle w (q_salle_id req) \<noteq> None"
  by (auto simp: priority_checks_def split: if_splits option.splits)

lemma double_booked_new:
  "double_booked r (new_reservation e user req w) = preempted_by e req r"
  by (auto simp: double_booked_def preempted_by_def new_reservation_def)

lemma preempted_by_cancel_row [simp]: "\<not> preempted_by e req (cancel_row e r)"
  by (simp add: preempted_by_def)

lemma new_reservation_fields [simp]:
  "r_id (new_reservation e user req w) = fresh_id w"
  "utilisateur_id (new_reservation e user req w) = p_id user"
  "salle_id (new_reservation e user req w) = q_salle_id req"
  "heure_debut (new_reservation e user req w) = minutes_of (q_heure_debut req)"
  "heure_fin (new_reservation e user req w) = minutes_of (q_heure_fin req)"
  by (simp_all add: new_reservation_def)

lemma fresh_id_not_used: "fresh_id w \<notin> set (map r_id (reservations w))"
  by (auto dest: fresh_id_fresh)

lemma no_conflict_not_preempted:
  assumes none: "conflicting_rows w (q_salle_id req) (local_day e (q_date req)) (minutes_of (q_heure_debut req))
       (minutes_of (q_heure_fin req)) None = []"
    and dur: "minutes_of (q_heure_debut req) < minutes_of (q_heure_fin req)"
    and r: "r \<in> set (reservations w)" "heure_debut r < heure_fin r"
  shows "\<not> preempted_by e req r"
proof
  assume p: "preempted_by e req r"
  then have "conflict_clause r (minutes_of (q_heure_debut req)) (minutes_of (q_heure_fin req))"
    using dur r(2) by (auto simp: preempted_by_def conflict_clause_def spec_overlap_def)
  then have "r \<in> set (conflicting_rows w (q_salle_id req) (local_day e (q_date req))
       (minutes_of (q_heure_debut req)) (minutes_of (q_heure_fin req)) None)"
    using p r(1) by (simp add: conflicting_rows_def preempted_by_def)
  then show False using none by simp
qed

lemma booking_invariant_create:
  assumes inv: "booking_invariant w" and known: "find_utilisateur w (p_id user) \<noteq> None"
  shows "booking_invariant (snd (createReservation e user req w))"
proof (cases "failed (fst (createReservation e user req w))")
  case True
  then have "reservations (snd (createReservation e user req w)) = reservations w"
    by (simp add: createReservation_reservations)
  then show ?thesis by (intro booking_invariant_tables [OF inv]) simp_all
next
  case False
  then have ok: "create_checks e req w = None"
    by (simp add: createReservation_failed_iff)
  note facts = create_checks_None [OF ok]
  have rs: "reservations (snd (createReservation e user req w)) =
            reservations w @ [new_reservation e user req w]"
    using False by (simp add: createReservation_reservations)
  have pos: "\<forall>r\<in>set (reservations w). heure_debut r < heure_fin r"
    using inv by (simp add: booking_invariant_def rows_wellformed_def list_all_iff)
  have free: "\<forall>x\<in>set (reservations w). \<not> double_booked x (new_reservation e user req w)"
    using no_conflict_not_preempted [of w req] facts pos by (simp add: double_booked_new)
  show ?thesis
    by (rule booking_invariant_appended [OF inv rs])
       (use facts known free fresh_id_not_used [of w] in simp_all)
qed

lemma booking_invariant_cancel:
  assumes inv: "booking_invariant w"
  shows "booking_invariant (snd (cancelReservation e user rid w))"
proof -
  obtain rep w' where run: "cancelReservation e user rid w = (rep, w')"
    by (cases "cancelReservation e user rid w")
  note cases = cancelReservation_cases [OF run]
  have "booking_invariant w'"
  proof (cases rep)
    case (Cancelled b)
    then have "reservations w' = map (\<lambda>r. if r_id r = rid then cancel_row e r else r) (reservations w)"
      using cases by simp
    then show ?thesis
      using cases
      by (intro booking_invariant_cancelled [OF inv, where P="\<lambda>r. r_id r = rid" and e=e]) simp_all
  next
    case (Refused f)
    then show ?thesis using cases by (intro booking_invariant_tables [OF inv]) simp_all
  next
    case NoReply
    then consider "reservations w' = reservations w"
      | "reservations w' = map (\<lambda>r. if r_id r = rid then cancel_row e r else r) (reservations w)"
      using cases by auto
    then show ?thesis
    proof cases
      case 1
      then show ?thesis using cases by (intro booking_invariant_tables [OF inv]) simp_all
    next
      case 2
      then show ?thesis
        using cases
        by (intro booking_invariant_cancelled [OF inv, where P="\<lambda>r. r_id r = rid" and e=e]) simp_all
    qed
  qed (use cases in simp_all)
  then show ?thesis using run by simp
qed

lemma booking_invariant_priority:
  assumes inv: "booking_invariant w" and known: "find_utilisateur w (p_id user) \<noteq> None"
  shows "booking_invariant (snd (createPriorityReservation e user req w))"
proof -
  obtain rep w' where run: "createPriorityReservation e user req w = (rep, w')"
    by (cases "createPriorityReservation e user req w")
  note cases = createPriorityReservation_cases [OF run]
  have wf: "rows_wellformed w" using inv by (simp add: booking_invariant_def)
  have "booking_invariant w'"
  proof (cases rep)
    case (PriorityCreated body)
    then have ok: "priority_checks e req w = None"
      and rs: "reservations w' = preempt e req w @ [new_reservation e user req w]"
      using cases by simp_all
    note facts = priority_checks_None [OF ok]
    define mid where "mid = w\<lparr>reservations := preempt e req w\<rparr>"
    have pre: "preempt e req w =
         map (\<lambda>r. if preempted_by e req r then cancel_row e r else r) (reservations w)"
      using preempt_preempted [OF wf] facts by simp
    have mid_inv: "booking_invariant mid"
      by (rule booking_invariant_cancelled [OF inv, where P="preempted_by e req" and e=e])
         (simp_all add: mid_def pre)
    have ids: "map r_id (reservations mid) = map r_id (reservations w)"
      by (simp add: mid_def pre del: map_map)
    have free: "\<forall>x\<in>set (reservations mid). \<not> double_booked x (new_reservation e user req w)"
      by (auto simp: mid_def pre double_booked_new)
    have finds: "find_utilisateur mid = find_utilisateur w" "find_salle mid = find_salle w"
      by (simp_all add: mid_def find_utilisateur_def find_salle_def fun_eq_iff)
    have p1: "reservations w' = reservations mid @ [new_reservation e user req w]"
      by (simp add: rs mid_def)
    have p2: "utilisateurs w' = utilisateurs mid" "salles w' = salles mid"
      using cases by (simp_all add: mid_def)
    have p3: "r_id (new_reservation e user req w) \<notin> set (map r_id (reservations mid))"
      unfolding ids using fresh_id_not_used [of w] by simp
    have p4: "heure_debut (new_reservation e user req w) < heure_fin (new_reservation e user req w)"
      using facts by simp
    have p5: "find_utilisateur mid (utilisateur_id (new_reservation e user req w)) \<noteq> None"
      using known by (simp add: finds)
    have p6: "find_salle mid (salle_id (new_reservation e user req w)) \<noteq> None"
      using facts by (simp add: finds)
    show ?thesis
      by (rule booking_invariant_appended [OF mid_inv p1 p2 p3 p4 p5 p6 free])
  next
    case (Refused f)
    then show ?thesis using cases by (intro booking_invariant_tables [OF inv]) simp_all
  qed (use cases in simp_all)
  then show ?thesis using run by simp
qed

lemma reachable_invariant: "reachable w \<Longrightarrow> booking_invariant w"
proof (induction rule: reachable.induct)
  case (initial w)
  then show ?case by (simp add: booking_invariant_def rows_wellformed_def)
next
  case (create w user e req)
  then show ?case by (simp add: booking_invariant_create)
next
  case (priority w user e req)
  then show ?case by (simp add: booking_invariant_priority)
next
  case (cancel w e user reservationId)
  then show ?case by (simp add: booking_invariant_cancel)
qed


lemma second_run:
  "reservations after_second =
     [cb_reservation first_booking,
      \<lparr>r_id = 2, utilisateur_id = 8, salle_id = 1, date = 20, heure_debut = 600,
       heure_fin = 660, motif = None, statut = ''active'', created_at = 1000,
       updated_at = 1000\<rparr>]"
  unfolding after_second_def after_first_def first_run snd_conv
  by (simp add: run_defs office_defs first_booking_def ten_to_eleven_def)


subsection \<open>Failures of the two booking routes and refusals of a cancellation\<close>

lemma createReservation_failure_restores:
  "failed (fst (createReservation e user req w)) \<Longrightarrow>
     reservations (snd (createReservation e user req w)) = reservations w \<and>
     notifications (snd (createReservation e user req w)) = notifications w"
  using createReservation_cases [of e user req w "fst (createReservation e user req w)"
      "snd (createReservation e user req w)"]
  by (auto split: reply.splits)

lemma createPriorityReservation_failure_restores:
  "failed (fst (createPriorityReservation e user req w)) \<Longrightarrow>
     reservations (snd (createPriorityReservation e user req w)) = reservations w \<and>
     notifications (snd (createPriorityReservation e user req w)) = notifications w"
  using createPriorityReservation_cases [of e user req w
      "fst (createPriorityReservation e user req w)" "snd (createPriorityReservation e user req w)"]
  by (auto split: reply.splits)

lemma cancelReservation_refusal_restores:
  "fst (cancelReservation e user rid w) = Refused f \<Longrightarrow>
     reservations (snd (cancelReservation e user rid w)) = reservations w \<and>
     notifications (snd (cancelReservation e user rid w)) = notifications w"
  using cancelReservation_cases [OF surjective_pairing [of "cancelReservation e user rid w"]]
  by simp

subsection \<open>How far the booking route follows the preconditions of the specification\<close>

lemma createReservation_follows_checks:
  assumes nf: "\<forall>q. \<not> fault e q"
  shows "case create_checks e req w of
           Some f \<Rightarrow>
             fst (createReservation e user req w) = Refused f \<and>
             reservations (snd (createReservation e user req w)) = reservations w
         | None \<Rightarrow>
             (\<exists>body. fst (createReservation e user req w) = Created body \<and>
                statut (cb_reservation body) = ''active'' \<and>
                reservations (snd (createReservation e user req w)) =
                  reservations w @ [cb_reservation body])"
proof -
  obtain rep w' where run: "createReservation e user req w = (rep, w')"
    by (cases "createReservation e user req w")
  obtain res w1 where tr: "createReservation_try e user req (record_query Begin w) = (res, w1)"
    by (cases "createReservation_try e user req (record_query Begin w)")
  have res: "case res of Inl f \<Rightarrow> create_checks e req w = Some f
             | Inr body \<Rightarrow> create_checks e req w = None"
    using createReservation_try_nofault [where e=e and user=user and req=req
        and ?w0.0="record_query Begin w"] nf tr
    by (simp split: sum.splits)
  have shape: "rep = (case res of Inl f \<Rightarrow> Refused f | Inr body \<Rightarrow> Created body)"
    using run tr nf by (auto simp: createReservation_def Let_def split: sum.splits)
  show ?thesis
    using createReservation_cases [OF run] res shape run
    by (auto simp: new_reservation_def split: sum.splits option.splits)
qed

text \<open>
  East of UTC, up to a day, a date given as a calendar date is stored and compared as the
  day it names, and the checks of the route are the preconditions of the specification.
\<close>

lemma local_day_of_date:
  assumes "0 \<le> tz e" "tz e < day_ms" "q_date req mod day_ms = 0"
  shows "local_day e (q_date req) = spec_request_day req"
proof -
  have "day_ms dvd q_date req" using assms(3) by (simp add: mod_eq_0_iff_dvd)
  then obtain k where k: "q_date req = k * day_ms" unfolding dvd_def by (auto simp: mult.commute)
  have "(k * day_ms + tz e) div day_ms = k + tz e div day_ms"
    by (simp add: day_ms_def)
  moreover have "tz e div day_ms = 0"
    using assms(1,2) by (simp add: div_pos_pos_trivial)
  ultimately show ?thesis
    by (simp add: local_day_def spec_request_day_def k day_ms_def)
qed

lemma past_date_check:
  assumes "0 \<le> tz e" "tz e < day_ms" "q_date req mod day_ms = 0"
  shows "(q_date req < today e) = (spec_request_day req < spec_current_day e)"
proof -
  have "day_ms dvd q_date req" using assms(3) by (simp add: mod_eq_0_iff_dvd)
  then obtain k where k: "q_date req = k * day_ms" unfolding dvd_def by (auto simp: mult.commute)
  define l where "l = (clock e + tz e) div day_ms"
  have d: "spec_request_day req = k" by (simp add: spec_request_day_def k day_ms_def)
  have "(k * 86400000 < l * 86400000 - tz e) = (k < l)"
    using assms(1,2) unfolding day_ms_def by arith
  then show ?thesis
    unfolding d by (simp add: today_def local_day_def spec_current_day_def k l_def day_ms_def)
qed

lemma create_checks_spec:
  assumes east: "0 \<le> tz e" "tz e < day_ms"
    and date_only: "q_date req mod day_ms = 0"
    and pos: "\<forall>r\<in>set (reservations w). heure_debut r < heure_fin r"
  shows "create_checks e req w = spec_booking_refusal e req w"
proof -
  note ld = local_day_of_date [OF east date_only]
  note past = past_date_check [OF east date_only]
  have conf: "conflicting_rows w (q_salle_id req) (local_day e (q_date req))
                (minutes_of (q_heure_debut req)) (minutes_of (q_heure_fin req)) None =
              spec_find_conflicts req w"
    if dur: "minutes_of (q_heure_debut req) < minutes_of (q_heure_fin req)"
    unfolding conflicting_rows_def spec_find_conflicts_def ld
  proof (rule filter_cong [OF refl])
    fix r assume "r \<in> set (reservations w)"
    then have "heure_debut r < heure_fin r" using pos by simp
    then have "conflict_clause r (minutes_of (q_heure_debut req)) (minutes_of (q_heure_fin req)) =
               spec_overlap (heure_debut r) (heure_fin r)
                 (minutes_of (q_heure_debut req)) (minutes_of (q_heure_fin req))"
      using dur unfolding conflict_clause_def spec_overlap_def by auto
    then show "(salle_id r = q_salle_id req \<and> date r = spec_request_day req \<and>
                statut r = ''active'' \<and>
                conflict_clause r (minutes_of (q_heure_debut req)) (minutes_of (q_heure_fin req)) \<and>
                (case None of None \<Rightarrow> True | Some x \<Rightarrow> if x = 0 then True else r_id r \<noteq> x)) =
               (salle_id r = q_salle_id req \<and> date r = spec_request_day req \<and>
                statut r = ''active'' \<and>
                spec_overlap (heure_debut r) (heure_fin r)
                  (minutes_of (q_heure_debut req)) (minutes_of (q_heure_fin req)))"
      by simp
  qed
  show ?thesis
  proof (cases "int (minutes_of (q_heure_fin req)) - int (minutes_of (q_heure_debut req)) < 60")
    case True
    then show ?thesis by (simp add: create_checks_def spec_booking_refusal_def past)
  next
    case False
    then have "minutes_of (q_heure_debut req) < minutes_of (q_heure_fin req)" by simp
    then show ?thesis
      using False
      by (simp add: create_checks_def spec_booking_refusal_def past conf find_salle_def
          split: option.splits)
  qed
qed

lemma createReservation_follows_spec:
  assumes nf: "\<forall>q. \<not> fault e q"
    and east: "0 \<le> tz e" "tz e < day_ms"
    and date_only: "q_date req mod day_ms = 0"
    and pos: "\<forall>r\<in>set (reservations w). heure_debut r < heure_fin r"
  shows "case spec_booking_refusal e req w of
           Some f \<Rightarrow>
             fst (createReservation e user req w) = Refused f \<and>
             reservations (snd (createReservation e user req w)) = reservations w
         | None \<Rightarrow>
             (\<exists>body. fst (createReservation e user req w) = Created body \<and>
                statut (cb_reservation body) = ''active'' \<and>
                reservations (snd (createReservation e user req w)) =
                  reservations w @ [cb_reservation body])"
  using createReservation_follows_checks [OF nf, where req=req and w=w and user=user]
  unfolding create_checks_spec [OF east date_only pos] .

section \<open>Properties of the booking engine\<close>

text \<open>
  C3.  A server five hours west of UTC receives, at noon of day 20, a booking for day 20
  of a free hour in an available room, its date given as a calendar date.  The date is
  the current calendar day, by the server's local time and by UTC alike, and all five
  preconditions hold, yet \<open>createReservation\<close> refuses the booking as past and stores
  nothing: the date text is read as midnight UTC, which is the evening of day 19 on the
  server, and is compared with the server's local midnight.  A server one hour east of
  UTC accepts the same request on the same day.
\<close>

theorem createReservation_refuses_today:
  "spec_request_day nine_to_ten = 20 \<and> spec_current_day west_env = 20 \<and>
   clock west_env div day_ms = 20 \<and>
   spec_booking_refusal west_env nine_to_ten office = None \<and>
   fst (createReservation west_env awa nine_to_ten office) = Refused PastDate \<and>
   http_status PastDate = 400 \<and>
   reservations (snd (createReservation west_env awa nine_to_ten office)) = [] \<and>
   spec_current_day steady_env = 20 \<and>
   spec_booking_refusal steady_env nine_to_ten office = None \<and>
   fst (createReservation steady_env awa nine_to_ten office) = Created first_booking"
proof -
  have west: "spec_request_day nine_to_ten = 20 \<and> spec_current_day west_env = 20 \<and>
      clock west_env div day_ms = 20 \<and>
      spec_booking_refusal west_env nine_to_ten office = None \<and>
      fst (createReservation west_env awa nine_to_ten office) = Refused PastDate \<and>
      reservations (snd (createReservation west_env awa nine_to_ten office)) = []"
    by (simp add: spec_request_day_def spec_current_day_def spec_booking_refusal_def
        spec_find_conflicts_def createReservation_def createReservation_try_def today_def
        local_day_def day_ms_def west_env_def nine_to_ten_def office_def minutes_of_def
        record_query_def rollback_def Let_def)
  have east: "spec_current_day steady_env = 20 \<and>
      spec_booking_refusal steady_env nine_to_ten office = None"
    by (simp add: spec_request_day_def spec_current_day_def spec_booking_refusal_def
        spec_find_conflicts_def day_ms_def steady_env_def nine_to_ten_def office_def
        minutes_of_def)
  have "fst (createReservation steady_env awa nine_to_ten office) = Created first_booking"
    by (simp add: first_run)
  then show ?thesis using west east by simp
qed

text \<open>
  C4.  For a stored window and a requested window of positive length, the three-clause
  condition of \<open>checkReservationConflict\<close> and the inline one of the priority route both
  equal the half-open overlap test \<open>s1 < e2 \<and> s2 < e1\<close>; windows that only touch are
  not in conflict.
\<close>

theorem conflict_clause_overlap:
  "heure_debut r < heure_fin r \<Longrightarrow> p3 < p4 \<Longrightarrow>
     conflict_clause r p3 p4 = spec_overlap (heure_debut r) (heure_fin r) p3 p4 \<and>
     priority_conflict_clause r p3 p4 = spec_overlap (heure_debut r) (heure_fin r) p3 p4 \<and>
     (heure_fin r = p3 \<or> heure_debut r = p4 \<longrightarrow>
        \<not> conflict_clause r p3 p4 \<and> \<not> priority_conflict_clause r p3 p4)"
  unfolding conflict_clause_def priority_conflict_clause_def spec_overlap_def by auto

theorem conflict_clause_overlap_witness:
  "heure_debut row_9_10 < heure_fin row_9_10 \<and> (600::nat) < 660 \<and>
   heure_fin row_9_10 = 600 \<and>
   \<not> conflict_clause row_9_10 600 660 \<and> \<not> priority_conflict_clause row_9_10 600 660 \<and>
   conflict_clause row_9_10 570 630 \<and> spec_overlap 540 600 570 630"
  using conflict_clause_overlap [of row_9_10 600 660] conflict_clause_overlap [of row_9_10 570 630]
  by (simp add: row_9_10_def spec_overlap_def)

text \<open>
  C9.  \<open>sendSMS\<close> returns a result for every number and message: \<open>success\<close> holds
  exactly when the number is present, has the international shape and Twilio accepts the
  message, and an error is recorded exactly when it does not hold.
  \<open>sendReservationSMS\<close> returns a result without success when the roster query fails
  or the roster is empty.
\<close>

theorem sendSMS_never_raises:
  "success (fst (sendSMS e to_num msg w)) =
     (case to_num of None \<Rightarrow> False
      | Some num \<Rightarrow> phone_ok num \<and> twilio e (length (journal w)) \<noteq> None) \<and>
   (sms_error (fst (sendSMS e to_num msg w)) = None) = success (fst (sendSMS e to_num msg w)) \<and>
   (fault e SelectRoster \<or> utilisateurs w = [] \<longrightarrow>
      \<not> rs_success (fst (sendReservationSMS e nomSalle d h1 h2 w)) \<and>
      rs_results (fst (sendReservationSMS e nomSalle d h1 h2 w)) = [])"
  by (auto simp: sendSMS_def sendSMS_try_def sendReservationSMS_def Let_def split: option.splits)

theorem sendSMS_never_raises_witness:
  "fault faulty_env SelectRoster \<and>
   \<not> rs_success (fst (sendReservationSMS faulty_env ''Salle A'' 20 540 600 office)) \<and>
   \<not> success (fst (sendSMS steady_env (Some ''0677865607'') (Texte ''x'') office)) \<and>
   success (fst (sendSMS steady_env (Some ''+237677865607'') (Texte ''x'') office))"
  using sendSMS_never_raises [of faulty_env "Some ''0677865607''" "Texte ''x''" office "''Salle A''" 20 540 600]
    sendSMS_never_raises [of steady_env "Some ''0677865607''" "Texte ''x''" office "''Salle A''" 20 540 600]
    sendSMS_never_raises [of steady_env "Some ''+237677865607''" "Texte ''x''" office "''Salle A''" 20 540 600]
  by (simp add: faulty_env_def steady_env_def phone_ok_def digit_def office_def)

text \<open>
  C6.  With a storage that answers every statement and well-formed rows,
  \<open>cancelReservation\<close> checks in this order: the reservation exists (else not found),
  the requester is an admin or the owner (else forbidden), the status is active (else
  invalid state).  On success the row becomes \<open>annulee\<close> with \<open>updated_at\<close> set to the
  current timestamp, and cancelling it once more is refused with invalid state.
\<close>

theorem cancelReservation_order:
  assumes nf: "\<forall>q. \<not> fault e q" and wf: "rows_wellformed w"
  shows "case find (\<lambda>r. r_id r = rid) (reservations w) of
           None \<Rightarrow>
             fst (cancelReservation e user rid w) = Refused NotFound \<and>
             reservations (snd (cancelReservation e user rid w)) = reservations w
         | Some r \<Rightarrow>
             if p_role user \<noteq> ''admin'' \<and> utilisateur_id r \<noteq> p_id user
             then fst (cancelReservation e user rid w) = Refused Forbidden \<and>
                  reservations (snd (cancelReservation e user rid w)) = reservations w
             else if statut r \<noteq> ''active''
             then fst (cancelReservation e user rid w) = Refused InvalidState \<and>
                  reservations (snd (cancelReservation e user rid w)) = reservations w
             else (\<exists>b. fst (cancelReservation e user rid w) = Cancelled b) \<and>
                  reservations (snd (cancelReservation e user rid w)) =
                    map (\<lambda>x. if r_id x = rid
                             then x\<lparr>statut := ''annulee'', updated_at := now e\<rparr> else x)
                        (reservations w) \<and>
                  (\<forall>e2. (\<forall>q. \<not> fault e2 q) \<longrightarrow>
                     fst (cancelReservation e2 user rid (snd (cancelReservation e user rid w))) =
                       Refused InvalidState)"
proof -
  obtain rep w' where run: "cancelReservation e user rid w = (rep, w')"
    by (cases "cancelReservation e user rid w")
  note cases = cancelReservation_cases [OF run]
  have jf: "case filter (\<lambda>j. r_id (row j) = rid) (joined_rows w) of
        [] \<Rightarrow> find (\<lambda>r. r_id r = rid) (reservations w) = None
      | j # _ \<Rightarrow> find (\<lambda>r. r_id r = rid) (reservations w) = Some (row j)"
    unfolding joined_rows_def by (rule joined_filter_find [OF rows_wellformed_joinable [OF wf]])
  note reply = cancelReservation_nofault_kind [where e=e and rid=rid and w=w and user=user, OF nf]
  show ?thesis
  proof (cases "filter (\<lambda>j. r_id (row j) = rid) (joined_rows w)")
    case Nil
    then have "find (\<lambda>r. r_id r = rid) (reservations w) = None" using jf by simp
    moreover have "rep = Refused NotFound" using reply Nil run by simp
    ultimately show ?thesis using cases run by simp
  next
    case (Cons j js)
    then have found: "find (\<lambda>r. r_id r = rid) (reservations w) = Some (row j)" using jf by simp
    show ?thesis
    proof (cases "p_role user \<noteq> ''admin'' \<and> utilisateur_id (row j) \<noteq> p_id user")
      case True
      then have "rep = Refused Forbidden" using reply Cons run by simp
      then show ?thesis using found True cases run by simp
    next
      case perm: False
      show ?thesis
      proof (cases "statut (row j) \<noteq> ''active''")
        case True
        then have "rep = Refused InvalidState" using reply Cons run perm by auto
        then show ?thesis using found True perm cases run by auto
      next
        case False
        then obtain b where b: "rep = Cancelled b" using reply Cons run perm by auto
        have rs': "reservations w' = map (\<lambda>r. if r_id r = rid then cancel_row e r else r) (reservations w)"
          and tabs: "salles w' = salles w" "utilisateurs w' = utilisateurs w"
          using cases b by simp_all
        have jr: "join_row w' = join_row w" by (rule join_row_tables [OF tabs(2) tabs(1)])
        have joinable': "list_all (\<lambda>r. join_row w' r \<noteq> None) (reservations w')"
          using rows_wellformed_joinable [OF wf]
          by (auto simp: jr rs' list_all_iff)
        have found': "find (\<lambda>r. r_id r = rid) (reservations w') = Some (cancel_row e (row j))"
          using found by (simp add: rs' find_cancelled)
        have second: "fst (cancelReservation e2 user rid w') = Refused InvalidState"
          if nf2: "\<forall>q. \<not> fault e2 q" for e2
        proof -
          have jf': "case filter (\<lambda>j. r_id (row j) = rid) (joined_rows w') of
              [] \<Rightarrow> find (\<lambda>r. r_id r = rid) (reservations w') = None
            | j # _ \<Rightarrow> find (\<lambda>r. r_id r = rid) (reservations w') = Some (row j)"
            unfolding joined_rows_def by (rule joined_filter_find [OF joinable'])
          then obtain a js' where a: "filter (\<lambda>j. r_id (row j) = rid) (joined_rows w') = a # js'"
            using found' by (cases "filter (\<lambda>j. r_id (row j) = rid) (joined_rows w')") auto
          have "row a = cancel_row e (row j)" using jf' a found' by simp
          then have "statut (row a) = ''annulee''" "utilisateur_id (row a) = utilisateur_id (row j)"
            by (simp_all add: cancel_row_def)
          then show ?thesis
            using cancelReservation_nofault_kind [where e=e2 and rid=rid and w=w' and user=user, OF nf2]
              a perm
            by auto
        qed
        have "\<exists>b. fst (cancelReservation e user rid w) = Cancelled b" using b run by simp
        moreover have "reservations (snd (cancelReservation e user rid w)) =
                    map (\<lambda>x. if r_id x = rid
                             then x\<lparr>statut := ''annulee'', updated_at := now e\<rparr> else x)
                        (reservations w)"
          using rs' run by (simp add: cancel_row_def)
        moreover have "\<forall>e2. (\<forall>q. \<not> fault e2 q) \<longrightarrow>
                     fst (cancelReservation e2 user rid (snd (cancelReservation e user rid w))) =
                       Refused InvalidState"
          using second run by simp
        ultimately show ?thesis using found perm False by auto
      qed
    qed
  qed
qed


theorem cancelReservation_order_witness:
  "(\<forall>q. \<not> fault steady_env q) \<and> rows_wellformed booked_office \<and>
   fst (cancelReservation steady_env awa 2 booked_office) = Refused NotFound \<and>
   fst (cancelReservation steady_env bea 3 booked_office) = Refused Forbidden \<and>
   (\<exists>b. fst (cancelReservation steady_env the_admin 3 booked_office) = Cancelled b) \<and>
   fst (cancelReservation steady_env the_admin 3
          (snd (cancelReservation steady_env the_admin 3 booked_office))) = Refused InvalidState"
proof -
  have nf: "\<forall>q. \<not> fault steady_env q" by (simp add: steady_env_def)
  have wf: "rows_wellformed booked_office"
    by (simp add: rows_wellformed_def booked_office_def office_def row_9_10_def
        find_utilisateur_def find_salle_def)
  have f1: "find (\<lambda>r. r_id r = 3) (reservations booked_office) = Some row_9_10"
    by (simp add: booked_office_def row_9_10_def)
  have f2: "find (\<lambda>r. r_id r = 2) (reservations booked_office) = None"
    by (simp add: booked_office_def row_9_10_def)
  have r: "utilisateur_id row_9_10 = 7" "statut row_9_10 = ''active''"
    by (simp_all add: row_9_10_def)
  have a: "fst (cancelReservation steady_env awa 2 booked_office) = Refused NotFound"
    using cancelReservation_order [OF nf wf, where rid=2 and user=awa] unfolding f2 by simp
  have b: "fst (cancelReservation steady_env bea 3 booked_office) = Refused Forbidden"
    using cancelReservation_order [OF nf wf, where rid=3 and user=bea] unfolding f1
    by (simp add: r bea_def)
  have c: "(\<exists>b. fst (cancelReservation steady_env the_admin 3 booked_office) = Cancelled b) \<and>
      fst (cancelReservation steady_env the_admin 3
          (snd (cancelReservation steady_env the_admin 3 booked_office))) = Refused InvalidState"
    using cancelReservation_order [OF nf wf, where rid=3 and user=the_admin] nf unfolding f1
    by (simp add: r the_admin_def)
  show ?thesis using nf wf a b c by simp
qed




text \<open>
  C8.  The storage rejects the \<open>COMMIT\<close> of a cancellation.  The row has been set to
  \<open>annulee\<close> and the owner has been told by SMS; the error reaches the \<open>catch\<close> of
  the route, which sends no \<open>ROLLBACK\<close> and no reply, so the transaction is left open
  with the row cancelled.  On the same fault the booking route sends \<open>ROLLBACK\<close>,
  replies with the storage error and leaves the table as it was.
\<close>

theorem cancelReservation_failure_not_rolled_back:
  "fst (cancelReservation commit_fault_env awa 3 booked_office) = NoReply \<and>
   new_events booked_office (snd (cancelReservation commit_fault_env awa 3 booked_office)) =
     [Query Begin, Query SelectReservation, Query UpdateStatut,
      Dispatch ''+237677865607'', SmsOutcome (Some ''+237677865607'') True,
      Query (InsertNotification 3), Query Commit] \<and>
   reservations booked_office = [row_9_10] \<and>
   reservations (snd (cancelReservation commit_fault_env awa 3 booked_office)) =
     [row_9_10\<lparr>statut := ''annulee'', updated_at := 1000\<rparr>] \<and>
   fst (createReservation commit_fault_env awa nine_to_ten office) = Refused StorageFault \<and>
   new_events office (snd (createReservation commit_fault_env awa nine_to_ten office)) =
     [Query Begin, Query SelectSalle, Query SelectConflicts, Query InsertReservation,
      Query SelectRoster, Dispatch ''+237655998106'', Dispatch ''+237677865607'',
      Dispatch ''+237670123456'', SmsOutcome (Some ''+237655998106'') True,
      SmsOutcome (Some ''+237677865607'') True, SmsOutcome (Some ''+237670123456'') True,
      Query (InsertNotification 1), Query Commit, Query Rollback] \<and>
   reservations (snd (createReservation commit_fault_env awa nine_to_ten office)) =
     reservations office"
  by (simp add: run_defs office_defs commit_fault_env_def)

text \<open>
  C2, as stated, fails: in the successful booking below the three roster messages are
  handed to Twilio after the \<open>INSERT\<close> and before the \<open>COMMIT\<close>; so is the message
  of the successful cancellation.
\<close>

theorem dispatch_before_commit_counterexample:
  "fst (createReservation steady_env awa nine_to_ten office) = Created first_booking \<and>
   new_events office (snd (createReservation steady_env awa nine_to_ten office)) =
     [Query Begin, Query SelectSalle, Query SelectConflicts, Query InsertReservation,
      Query SelectRoster, Dispatch ''+237655998106'', Dispatch ''+237677865607'',
      Dispatch ''+237670123456'', SmsOutcome (Some ''+237655998106'') True,
      SmsOutcome (Some ''+237677865607'') True, SmsOutcome (Some ''+237670123456'') True,
      Query (InsertNotification 1), Query Commit] \<and>
   \<not> no_dispatch_before_commit
       (new_events office (snd (createReservation steady_env awa nine_to_ten office))) \<and>
   fst (cancelReservation steady_env awa 3 booked_office) =
     Cancelled \<lparr>an_smsStatus = True, an_notificationStatus = True\<rparr> \<and>
   new_events booked_office (snd (cancelReservation steady_env awa 3 booked_office)) =
     [Query Begin, Query SelectReservation, Query UpdateStatut,
      Dispatch ''+237677865607'', SmsOutcome (Some ''+237677865607'') True,
      Query (InsertNotification 3), Query Commit] \<and>
   \<not> no_dispatch_before_commit
       (new_events booked_office (snd (cancelReservation steady_env awa 3 booked_office)))"
  by (simp add: first_run cancel_run new_events_def)

text \<open>
  C2, amended.  The effects of every successful run of \<open>createReservation\<close>,
  \<open>createPriorityReservation\<close> and \<open>cancelReservation\<close> are: \<open>BEGIN\<close> first,
  \<open>COMMIT\<close> last, and between the two no \<open>BEGIN\<close>, \<open>COMMIT\<close> or \<open>ROLLBACK\<close>.
  So every SMS dispatch of the request lies between the \<open>BEGIN\<close> and the \<open>COMMIT\<close>,
  inside the one open transaction, and none comes after the \<open>COMMIT\<close>.
\<close>

theorem commit_ends_the_run:
  "(fst (createReservation e user req w) = Created cb \<longrightarrow>
      (\<exists>mid. new_events w (snd (createReservation e user req w)) =
               Query Begin # mid @ [Query Commit] \<and>
             Query Begin \<notin> set mid \<and> Query Commit \<notin> set mid \<and> Query Rollback \<notin> set mid \<and>
             filter is_dispatch (new_events w (snd (createReservation e user req w))) =
               filter is_dispatch mid)) \<and>
   (fst (createPriorityReservation e user req w) = PriorityCreated pb \<longrightarrow>
      (\<exists>mid. new_events w (snd (createPriorityReservation e user req w)) =
               Query Begin # mid @ [Query Commit] \<and>
             Query Begin \<notin> set mid \<and> Query Commit \<notin> set mid \<and> Query Rollback \<notin> set mid \<and>
             filter is_dispatch (new_events w (snd (createPriorityReservation e user req w))) =
               filter is_dispatch mid)) \<and>
   (fst (cancelReservation e user rid w) = Cancelled an \<longrightarrow>
      (\<exists>mid. new_events w (snd (cancelReservation e user rid w)) =
               Query Begin # mid @ [Query Commit] \<and>
             Query Begin \<notin> set mid \<and> Query Commit \<notin> set mid \<and> Query Rollback \<notin> set mid \<and>
             filter is_dispatch (new_events w (snd (cancelReservation e user rid w))) =
               filter is_dispatch mid))"
proof (intro conjI impI)
  assume "fst (createReservation e user req w) = Created cb"
  then have "createReservation e user req w = (Created cb, snd (createReservation e user req w))"
    by (simp add: prod_eq_iff)
  from createReservation_journal [OF this]
  obtain mid where "journal (snd (createReservation e user req w)) =
      journal w @ Query Begin # mid @ [Query Commit]" "no_delimiter mid"
    by blast
  then show "\<exists>mid. new_events w (snd (createReservation e user req w)) =
               Query Begin # mid @ [Query Commit] \<and>
             Query Begin \<notin> set mid \<and> Query Commit \<notin> set mid \<and> Query Rollback \<notin> set mid \<and>
             filter is_dispatch (new_events w (snd (createReservation e user req w))) =
               filter is_dispatch mid"
    by (intro exI [of _ mid]) (simp add: new_events_def no_delimiter_def)
next
  assume "fst (createPriorityReservation e user req w) = PriorityCreated pb"
  then have "createPriorityReservation e user req w =
             (PriorityCreated pb, snd (createPriorityReservation e user req w))"
    by (simp add: prod_eq_iff)
  from createPriorityReservation_journal [OF this]
  obtain mid where "journal (snd (createPriorityReservation e user req w)) =
      journal w @ Query Begin # mid @ [Query Commit]" "no_delimiter mid"
    by blast
  then show "\<exists>mid. new_events w (snd (createPriorityReservation e user req w)) =
               Query Begin # mid @ [Query Commit] \<and>
             Query Begin \<notin> set mid \<and> Query Commit \<notin> set mid \<and> Query Rollback \<notin> set mid \<and>
             filter is_dispatch (new_events w (snd (createPriorityReservation e user req w))) =
               filter is_dispatch mid"
    by (intro exI [of _ mid]) (simp add: new_events_def no_delimiter_def)
next
  assume "fst (cancelReservation e user rid w) = Cancelled an"
  then have "cancelReservation e user rid w = (Cancelled an, snd (cancelReservation e user rid w))"
    by (simp add: prod_eq_iff)
  from cancelReservation_journal [OF this]
  obtain mid where "journal (snd (cancelReservation e user rid w)) =
      journal w @ Query Begin # mid @ [Query Commit]" "no_delimiter mid"
    by blast
  then show "\<exists>mid. new_events w (snd (cancelReservation e user rid w)) =
               Query Begin # mid @ [Query Commit] \<and>
             Query Begin \<notin> set mid \<and> Query Commit \<notin> set mid \<and> Query Rollback \<notin> set mid \<and>
             filter is_dispatch (new_events w (snd (cancelReservation e user rid w))) =
               filter is_dispatch mid"
    by (intro exI [of _ mid]) (simp add: new_events_def no_delimiter_def)
qed

theorem commit_ends_the_run_witness:
  "fst (createReservation steady_env awa nine_to_ten office) = Created first_booking \<and>
   fst (createPriorityReservation steady_env the_admin half_past_nine booked_office) =
     PriorityCreated priority_booking \<and>
   fst (cancelReservation steady_env awa 3 booked_office) =
     Cancelled \<lparr>an_smsStatus = True, an_notificationStatus = True\<rparr> \<and>
   (\<exists>mid. new_events office (snd (createReservation steady_env awa nine_to_ten office)) =
            Query Begin # mid @ [Query Commit] \<and>
          Query Begin \<notin> set mid \<and> Query Commit \<notin> set mid \<and> Query Rollback \<notin> set mid \<and>
          filter is_dispatch mid =
            [Dispatch ''+237655998106'', Dispatch ''+237677865607'', Dispatch ''+237670123456'']) \<and>
   (\<exists>mid. new_events booked_office
            (snd (createPriorityReservation steady_env the_admin half_past_nine booked_office)) =
            Query Begin # mid @ [Query Commit] \<and>
          Query Begin \<notin> set mid \<and> Query Commit \<notin> set mid \<and> Query Rollback \<notin> set mid \<and>
          filter is_dispatch mid = [Dispatch ''+237677865607'', Dispatch ''+237655998106'']) \<and>
   (\<exists>mid. new_events booked_office (snd (cancelReservation steady_env awa 3 booked_office)) =
            Query Begin # mid @ [Query Commit] \<and>
          Query Begin \<notin> set mid \<and> Query Commit \<notin> set mid \<and> Query Rollback \<notin> set mid \<and>
          filter is_dispatch mid = [Dispatch ''+237677865607''])"
proof -
  have a: "fst (createReservation steady_env awa nine_to_ten office) = Created first_booking"
    by (simp add: first_run)
  have b: "fst (createPriorityReservation steady_env the_admin half_past_nine booked_office) =
     PriorityCreated priority_booking"
    by (simp add: priority_run)
  have c: "fst (cancelReservation steady_env awa 3 booked_office) =
     Cancelled \<lparr>an_smsStatus = True, an_notificationStatus = True\<rparr>"
    by (simp add: cancel_run)
  have da: "filter is_dispatch
      (new_events office (snd (createReservation steady_env awa nine_to_ten office))) =
      [Dispatch ''+237655998106'', Dispatch ''+237677865607'', Dispatch ''+237670123456'']"
    by (simp add: first_run new_events_def)
  have db: "filter is_dispatch (new_events booked_office
      (snd (createPriorityReservation steady_env the_admin half_past_nine booked_office))) =
      [Dispatch ''+237677865607'', Dispatch ''+237655998106'']"
    by (simp add: priority_run new_events_def)
  have dc: "filter is_dispatch
      (new_events booked_office (snd (cancelReservation steady_env awa 3 booked_office))) =
      [Dispatch ''+237677865607'']"
    by (simp add: cancel_run new_events_def)
  show ?thesis
    using commit_ends_the_run [where e=steady_env and user=awa and req=nine_to_ten and w=office
      and cb=first_booking and pb=priority_booking and rid=3
      and an="\<lparr>an_smsStatus = True, an_notificationStatus = True\<rparr>"]
    commit_ends_the_run [where e=steady_env and user=the_admin and req=half_past_nine
      and w=booked_office and cb=first_booking and pb=priority_booking and rid=3
      and an="\<lparr>an_smsStatus = True, an_notificationStatus = True\<rparr>"]
    commit_ends_the_run [where e=steady_env and user=awa and req=half_past_nine
      and w=booked_office and cb=first_booking and pb=priority_booking and rid=3
      and an="\<lparr>an_smsStatus = True, an_notificationStatus = True\<rparr>"]
    unfolding da db dc
    using a b c by auto
qed

text \<open>
  C10.  In a successful priority booking the reported \<open>smsStatus\<close> is the conjunction
  of the outcomes of all the messages sent during the request, and these are one per
  preempted reservation plus the confirmation to the requesting admin.
\<close>

theorem priority_smsStatus_conjunction:
  "fst (createPriorityReservation e user req w) = PriorityCreated body \<Longrightarrow>
     pb_smsStatus body =
       list_all id (sms_outcomes (new_events w (snd (createPriorityReservation e user req w)))) \<and>
     length (sms_outcomes (new_events w (snd (createPriorityReservation e user req w)))) =
       reservations_annulees body + 1"
proof -
  assume "fst (createPriorityReservation e user req w) = PriorityCreated body"
  then have "createPriorityReservation e user req w =
             (PriorityCreated body, snd (createPriorityReservation e user req w))"
    by (simp add: prod_eq_iff)
  from createPriorityReservation_journal [OF this]
  show ?thesis by (auto simp: new_events_def)
qed

theorem priority_smsStatus_conjunction_witness:
  "fst (createPriorityReservation silent_env the_admin half_past_nine booked_office) =
     PriorityCreated unheard_priority_booking \<and>
   sms_outcomes (new_events booked_office
     (snd (createPriorityReservation silent_env the_admin half_past_nine booked_office))) =
     [False, False] \<and>
   \<not> pb_smsStatus unheard_priority_booking \<and>
   reservations_annulees unheard_priority_booking = 1"
  using priority_smsStatus_conjunction [where e=silent_env and user=the_admin
      and req=half_past_nine and w=booked_office and body=unheard_priority_booking]
  by (simp add: unheard_priority_run new_events_def
      unheard_priority_booking_def priority_booking_def)




text \<open>
  C1.  In every state reached from an empty reservation table by any sequence of
  \<open>createReservation\<close>, \<open>createPriorityReservation\<close> and \<open>cancelReservation\<close>
  runs, executed one after the other by authenticated users and whether they succeed or
  fail, any two distinct active reservations of the same room and date have windows that
  do not overlap.
\<close>

theorem active_windows_never_overlap:
  assumes "reachable w"
  shows "\<forall>a\<in>set (reservations w). \<forall>b\<in>set (reservations w).
           a \<noteq> b \<and> salle_id a = salle_id b \<and> date a = date b \<and>
           statut a = ''active'' \<and> statut b = ''active'' \<longrightarrow>
           \<not> spec_overlap (heure_debut a) (heure_fin a) (heure_debut b) (heure_fin b)"
proof (intro ballI impI)
  fix a b
  assume a: "a \<in> set (reservations w)" and b: "b \<in> set (reservations w)"
    and h: "a \<noteq> b \<and> salle_id a = salle_id b \<and> date a = date b \<and>
           statut a = ''active'' \<and> statut b = ''active''"
  have sw: "sorted_wrt (\<lambda>a b. \<not> double_booked a b) (reservations w)"
    using reachable_invariant [OF assms] by (simp add: booking_invariant_def)
  obtain i j where ij: "i < length (reservations w)" "j < length (reservations w)"
      "reservations w ! i = a" "reservations w ! j = b"
    using a b by (auto simp: in_set_conv_nth)
  have "i \<noteq> j" using ij h by auto
  then consider "i < j" | "j < i" by linarith
  then have "\<not> double_booked a b"
  proof cases
    case 1
    then show ?thesis using sw ij by (auto simp: sorted_wrt_iff_nth_less)
  next
    case 2
    then have "\<not> double_booked b a" using sw ij by (auto simp: sorted_wrt_iff_nth_less)
    then show ?thesis by (simp add: double_booked_sym)
  qed
  then show "\<not> spec_overlap (heure_debut a) (heure_fin a) (heure_debut b) (heure_fin b)"
    using h by (simp add: double_booked_def)
qed


theorem active_windows_never_overlap_witness:
  "reachable after_second \<and>
   map (\<lambda>r. (heure_debut r, heure_fin r, statut r)) (reservations after_second) =
     [(540, 600, ''active''), (600, 660, ''active'')] \<and>
   \<not> spec_overlap 540 600 600 660"
proof -
  have r0: "reachable office" by (rule reachable.initial) (simp add: office_def)
  have r1: "reachable after_first"
    unfolding after_first_def
    by (rule reachable.create [OF r0]) (simp add: find_utilisateur_def office_def awa_def)
  have u: "utilisateurs after_first = utilisateurs office"
    by (simp add: after_first_def)
  have r2: "reachable after_second"
    unfolding after_second_def
    by (rule reachable.create [OF r1]) (simp add: find_utilisateur_def u office_def bea_def)
  let ?a = "cb_reservation first_booking"
  let ?b = "\<lparr>r_id = 2, utilisateur_id = 8, salle_id = 1, date = 20, heure_debut = 600,
       heure_fin = 660, motif = None, statut = ''active'', created_at = 1000,
       updated_at = 1000\<rparr> :: reservation"
  have "?a \<in> set (reservations after_second)" "?b \<in> set (reservations after_second)"
    by (simp_all add: second_run)
  then have "?a \<noteq> ?b \<and> salle_id ?a = salle_id ?b \<and> date ?a = date ?b \<and>
           statut ?a = ''active'' \<and> statut ?b = ''active'' \<longrightarrow>
           \<not> spec_overlap (heure_debut ?a) (heure_fin ?a) (heure_debut ?b) (heure_fin ?b)"
    using active_windows_never_overlap [OF r2] by blast
  then have "\<not> spec_overlap 540 600 600 660" by (simp add: first_booking_def)
  then show ?thesis using r2 by (simp add: second_run first_booking_def)
qed


end
